theory Spec2Isabelle
  imports Main "HOL-Library.Word"
begin

section \<open>Values shared by both formats\<close>

text \<open>
  The package \<^verbatim>\<open>convert\<close> translates between a PyPI attestation (PEP 740) and a
  Sigstore bundle. Go byte slices are lists of 8-bit words; a \<^verbatim>\<open>nil\<close> slice and an
  empty one are both the empty list (the code only takes their length and their bytes).
  A Go pointer that may be \<^verbatim>\<open>nil\<close> is an \<open>option\<close>.
\<close>

type_synonym byte = "8 word"
type_synonym bytes = "byte list"

text \<open>
  Go errors. \<^verbatim>\<open>fmt.Errorf\<close> keeps its format string; the constructors differ in the
  verbs the format uses: none, \<^verbatim>\<open>%d\<close>, \<^verbatim>\<open>%w\<close> (the wrapped cause), or both.
  \<open>New\<close> is an error made inside a library.
\<close>

datatype error =
    New string
  | Errorf string
  | ErrorfD string nat
  | ErrorfW string error
  | ErrorfDW string nat error

text \<open>
  What a call of an exported function does: it returns a value, it returns an error
  value, or it panics on a nil pointer dereference.
\<close>

datatype 'a outcome = Returns 'a | Fails error | Panics

text \<open>
  A Go \<^verbatim>\<open>interface{}\<close> value, as far as this package meets one: the six kinds that
  \<^verbatim>\<open>encoding/json\<close> decodes into, and the two further kinds that
  \<^verbatim>\<open>MarshalAttestation\<close> stores in its map (\<^verbatim>\<open>uint32\<close> and
  \<^verbatim>\<open>[]*structpb.Struct\<close>). A \<^verbatim>\<open>map[string]interface{}\<close> is a map from strings.
  \<open>'f\<close> is \<^verbatim>\<open>float64\<close> and \<open>'st\<close> is \<^verbatim>\<open>*structpb.Struct\<close>; the package never looks
  inside either.
\<close>

datatype ('f, 'st) iface =
    INil
  | IBool bool
  | IFloat64 'f
  | IString string
  | ISlice "('f, 'st) iface list"
  | IMap "string \<Rightarrow> ('f, 'st) iface option"
  | IUint32 "32 word"
  | IStructs "'st list"

section \<open>The attestation model (package pb)\<close>

text \<open>
  Modelled from the spec: the message types \<^verbatim>\<open>pb.Attestation\<close>,
  \<^verbatim>\<open>pb.VerificationMaterial\<close> and \<^verbatim>\<open>pb.Envelope\<close> are generated code of the
  repository's package \<^verbatim>\<open>proto\<close>, which is not among the source files. The records have
  the fields of section 3 of the specification, with the types that the converter's
  own accesses fix: the version is a \<^verbatim>\<open>uint32\<close>, the two blocks are pointers, the
  transparency entries are a slice of \<^verbatim>\<open>*structpb.Struct\<close>.
\<close>

record 'st pb_VerificationMaterial =
  Certificate :: bytes
  TransparencyEntries :: "'st list"

record pb_Envelope =
  Statement :: bytes
  Signature :: bytes

record 'st pb_Attestation =
  Version :: "32 word"
  VerificationMaterial :: "'st pb_VerificationMaterial option"
  Envelope :: "pb_Envelope option"

section \<open>The bundle model (protobuf-specs and sigstore-go)\<close>

text \<open>
  Only the fields this package reads or writes are kept; every other field of the
  protobuf messages stays at its zero value throughout. \<open>'tle\<close> is
  \<^verbatim>\<open>*protorekor.TransparencyLogEntry\<close>, which the package only hands to the protobuf
  JSON codec.
\<close>

record protocommon_X509Certificate =
  RawBytes :: bytes

record protocommon_X509CertificateChain =
  Certificates :: "protocommon_X509Certificate option list"

text \<open>The oneof \<^verbatim>\<open>VerificationMaterial.Content\<close>; an unset oneof is \<open>None\<close>.\<close>

datatype vm_content =
    VerificationMaterial_PublicKey string
  | VerificationMaterial_X509CertificateChain "protocommon_X509CertificateChain option"
  | VerificationMaterial_Certificate "protocommon_X509Certificate option"

record 'tle protobundle_VerificationMaterial =
  VM_Content :: "vm_content option"
  TlogEntries :: "'tle list"

record protodsse_Signature =
  Sig :: bytes
  Keyid :: string

record protodsse_Envelope =
  Payload :: bytes
  PayloadType :: string
  Signatures :: "protodsse_Signature option list"

text \<open>The oneof \<^verbatim>\<open>Bundle.Content\<close>.\<close>

datatype bundle_content =
    Bundle_MessageSignature bytes
  | Bundle_DsseEnvelope "protodsse_Envelope option"

record 'tle protobundle_Bundle =
  MediaType :: string
  Bundle_VerificationMaterial :: "'tle protobundle_VerificationMaterial option"
  Bundle_Content :: "bundle_content option"

text \<open>
  \<^verbatim>\<open>bundle.Bundle\<close> of sigstore-go wraps the protobuf message; the package reads only
  the embedded pointer \<^verbatim>\<open>b.Bundle\<close>.
\<close>

record 'tle bundle_Bundle =
  Bundle :: "'tle protobundle_Bundle option"

record x509_Certificate =
  Raw :: bytes

section \<open>The libraries the package calls\<close>

text \<open>
  None of these functions belongs to the package; each is a parameter. A library call
  returns its value or an error.
\<close>

record ('f, 'st, 'tle) golib =
  x509_ParseCertificate :: "bytes \<Rightarrow> error + x509_Certificate"
  bundle_NewBundle :: "'tle protobundle_Bundle \<Rightarrow> error + 'tle bundle_Bundle"
  protojson_Marshal_Struct :: "'st \<Rightarrow> error + bytes"
  protojson_Marshal_Entry :: "'tle \<Rightarrow> error + bytes"
  protojson_Unmarshal_Entry :: "bytes \<Rightarrow> error + 'tle"
  protojson_Marshal_Bundle :: "'tle protobundle_Bundle \<Rightarrow> error + bytes"
  protojson_Unmarshal_Bundle :: "bytes \<Rightarrow> error + 'tle protobundle_Bundle"
  structpb_NewStruct :: "(string \<Rightarrow> ('f, 'st) iface option) \<Rightarrow> error + 'st"
  json_Unmarshal :: "bytes \<Rightarrow> error + (string \<Rightarrow> ('f, 'st) iface option)"
  json_MarshalIndent :: "(string \<Rightarrow> ('f, 'st) iface option) \<Rightarrow> error + bytes"
  base64_EncodeToString :: "bytes \<Rightarrow> string"
  base64_DecodeString :: "string \<Rightarrow> error + bytes"
  uint32_of_float64 :: "'f \<Rightarrow> 32 word"

section \<open>The transparency-entry adapter\<close>

definition transparencyEntryToStruct ::
  "('f, 'st, 'tle) golib \<Rightarrow> 'tle \<Rightarrow> error + 'st" where
  "transparencyEntryToStruct L entry =
     (case protojson_Marshal_Entry L entry of
        Inl err \<Rightarrow> Inl (ErrorfW ''failed to marshal transparency entry to JSON: %w'' err)
      | Inr jsonBytes \<Rightarrow>
          (case json_Unmarshal L jsonBytes of
             Inl err \<Rightarrow> Inl (ErrorfW ''failed to unmarshal JSON to map: %w'' err)
           | Inr m \<Rightarrow>
               (case structpb_NewStruct L m of
                  Inl err \<Rightarrow> Inl (ErrorfW ''failed to create structpb.Struct: %w'' err)
                | Inr s \<Rightarrow> Inr s)))"

definition transparencyEntryFromStruct ::
  "('f, 'st, 'tle) golib \<Rightarrow> 'st \<Rightarrow> error + 'tle" where
  "transparencyEntryFromStruct L s =
     (case protojson_Marshal_Struct L s of
        Inl err \<Rightarrow> Inl (ErrorfW ''failed to marshal struct to JSON: %w'' err)
      | Inr jsonBytes \<Rightarrow>
          (case protojson_Unmarshal_Entry L jsonBytes of
             Inl err \<Rightarrow>
               Inl (ErrorfW ''failed to unmarshal JSON to TransparencyLogEntry: %w'' err)
           | Inr entry \<Rightarrow> Inr entry))"

section \<open>ToBundle\<close>

definition ToBundle ::
  "('f, 'st, 'tle) golib \<Rightarrow> 'st pb_Attestation option \<Rightarrow> 'tle bundle_Bundle outcome" where
  "ToBundle L attestation =
     (case attestation of
        None \<Rightarrow> Fails (Errorf ''attestation cannot be nil'')
      | Some a \<Rightarrow>
          if Version a \<noteq> 1
          then Fails (ErrorfD ''unsupported attestation version: %d'' (unat (Version a)))
          else
            (case VerificationMaterial a of
               None \<Rightarrow> Panics
             | Some vm \<Rightarrow>
                 (case x509_ParseCertificate L (Certificate vm) of
                    Inl err \<Rightarrow> Fails (ErrorfW ''failed to parse certificate: %w'' err)
                  | Inr cert \<Rightarrow>
                      (case Envelope a of
                         None \<Rightarrow> Panics
                       | Some env \<Rightarrow>
                           let envelope =
                                 \<lparr>Payload = Statement env,
                                  PayloadType = ''application/vnd.in-toto+json'',
                                  Signatures = [Some \<lparr>Sig = Signature env, Keyid = []\<rparr>]\<rparr>
                           in
                             (case TransparencyEntries vm of
                                [] \<Rightarrow> Fails (Errorf ''no transparency entries found'')
                              | s # _ \<Rightarrow>
                                  (case transparencyEntryFromStruct L s of
                                     Inl err \<Rightarrow>
                                       Fails (ErrorfW
                                         ''failed to convert transparency entry: %w'' err)
                                   | Inr tlogEntry \<Rightarrow>
                                       let pbBundle =
                                             \<lparr>MediaType =
                                                ''application/vnd.dev.sigstore.bundle.v0.3+json'',
                                              Bundle_VerificationMaterial = Some
                                                \<lparr>VM_Content = Some
                                                   (VerificationMaterial_Certificate
                                                      (Some \<lparr>RawBytes = Raw cert\<rparr>)),
                                                 TlogEntries = [tlogEntry]\<rparr>,
                                              Bundle_Content =
                                                Some (Bundle_DsseEnvelope (Some envelope))\<rparr>
                                       in
                                         (case bundle_NewBundle L pbBundle of
                                            Inl err \<Rightarrow> Fails err
                                          | Inr b \<Rightarrow> Returns b)))))))"

text \<open>
  A name for the message that \<^verbatim>\<open>ToBundle\<close> hands to \<^verbatim>\<open>bundle.NewBundle\<close>, for use in
  statements; lemma \<open>ToBundle_hands_over\<close> below shows that it is that message.
\<close>

definition assembledBundle ::
  "x509_Certificate \<Rightarrow> pb_Envelope \<Rightarrow> 'tle \<Rightarrow> 'tle protobundle_Bundle" where
  "assembledBundle cert env tlogEntry =
     \<lparr>MediaType = ''application/vnd.dev.sigstore.bundle.v0.3+json'',
      Bundle_VerificationMaterial = Some
        \<lparr>VM_Content = Some
           (VerificationMaterial_Certificate (Some \<lparr>RawBytes = Raw cert\<rparr>)),
         TlogEntries = [tlogEntry]\<rparr>,
      Bundle_Content = Some (Bundle_DsseEnvelope (Some
        \<lparr>Payload = Statement env,
         PayloadType = ''application/vnd.in-toto+json'',
         Signatures = [Some \<lparr>Sig = Signature env, Keyid = []\<rparr>]\<rparr>))\<rparr>"

section \<open>FromBundle\<close>

text \<open>
  The loop over \<^verbatim>\<open>TlogEntries\<close>: \<open>i\<close> is the index of the head of the list. The
  Go code writes into a slice allocated beforehand; the result is the same list.
\<close>

fun convertEntries ::
  "('f, 'st, 'tle) golib \<Rightarrow> nat \<Rightarrow> 'tle list \<Rightarrow> error + 'st list" where
  "convertEntries L i [] = Inr []"
| "convertEntries L i (entry # rest) =
     (case transparencyEntryToStruct L entry of
        Inl err \<Rightarrow> Inl (ErrorfDW ''failed to convert transparency entry %d: %w'' i err)
      | Inr s \<Rightarrow>
          (case convertEntries L (Suc i) rest of
             Inl err \<Rightarrow> Inl err
           | Inr ss \<Rightarrow> Inr (s # ss)))"

definition FromBundle ::
  "('f, 'st, 'tle) golib \<Rightarrow> 'tle bundle_Bundle option \<Rightarrow> 'st pb_Attestation outcome" where
  "FromBundle L b =
     (case b of
        None \<Rightarrow> Fails (Errorf ''bundle cannot be nil'')
      | Some w \<Rightarrow>
     (case Bundle w of
        None \<Rightarrow> Fails (Errorf ''bundle cannot be nil'')
      | Some pbBundle \<Rightarrow>
     (case Bundle_VerificationMaterial pbBundle of
        None \<Rightarrow> Panics
      | Some vm \<Rightarrow>
     (case (case VM_Content vm of
              Some (VerificationMaterial_Certificate content) \<Rightarrow>
                (case content of
                   None \<Rightarrow> Panics
                 | Some c \<Rightarrow> Returns (RawBytes c))
            | Some (VerificationMaterial_X509CertificateChain content) \<Rightarrow>
                (case content of
                   None \<Rightarrow> Panics
                 | Some chain \<Rightarrow>
                     (case Certificates chain of
                        [] \<Rightarrow> Fails (Errorf ''no certificates in chain'')
                      | None # _ \<Rightarrow> Panics
                      | Some c # _ \<Rightarrow> Returns (RawBytes c)))
            | _ \<Rightarrow> Fails (Errorf ''unsupported certificate type'')) of
        Panics \<Rightarrow> Panics
      | Fails err \<Rightarrow> Fails err
      | Returns certBytes \<Rightarrow>
     (case Bundle_Content pbBundle of
        Some (Bundle_DsseEnvelope dsseEnvelope) \<Rightarrow>
          (case dsseEnvelope of
             None \<Rightarrow> Panics
           | Some envelope \<Rightarrow>
               if length (Signatures envelope) \<noteq> 1
               then Fails (ErrorfD ''expected exactly one signature, got %d''
                             (length (Signatures envelope)))
               else
                 (case convertEntries L 0 (TlogEntries vm) of
                    Inl err \<Rightarrow> Fails err
                  | Inr tlogEntries \<Rightarrow>
                      (case Signatures envelope of
                         [] \<Rightarrow> Panics
                       | None # _ \<Rightarrow> Panics
                       | Some sig0 # _ \<Rightarrow>
                           Returns
                             \<lparr>Version = 1,
                              VerificationMaterial = Some
                                \<lparr>Certificate = certBytes,
                                 TransparencyEntries = tlogEntries\<rparr>,
                              Envelope = Some
                                \<lparr>Statement = Payload envelope,
                                 Signature = Sig sig0\<rparr>\<rparr>)))
      | _ \<Rightarrow> Fails (Errorf ''bundle does not contain a DSSE envelope''))))))"

section \<open>The JSON codecs\<close>

text \<open>
  \<^verbatim>\<open>MarshalBundle\<close> asks the protobuf JSON codec for multi-line output indented by
  two spaces; \<open>protojson_Marshal_Bundle\<close> stands for the codec with these options.
\<close>

definition MarshalBundle ::
  "('f, 'st, 'tle) golib \<Rightarrow> 'tle bundle_Bundle option \<Rightarrow> bytes outcome" where
  "MarshalBundle L b =
     (case b of
        None \<Rightarrow> Fails (Errorf ''bundle cannot be nil'')
      | Some w \<Rightarrow>
          (case Bundle w of
             None \<Rightarrow> Fails (Errorf ''bundle cannot be nil'')
           | Some pbBundle \<Rightarrow>
               (case protojson_Marshal_Bundle L pbBundle of
                  Inl err \<Rightarrow> Fails err
                | Inr data \<Rightarrow> Returns data)))"

definition UnmarshalBundle ::
  "('f, 'st, 'tle) golib \<Rightarrow> bytes \<Rightarrow> 'tle bundle_Bundle outcome" where
  "UnmarshalBundle L data =
     (case protojson_Unmarshal_Bundle L data of
        Inl err \<Rightarrow> Fails (ErrorfW ''failed to unmarshal bundle JSON: %w'' err)
      | Inr pbBundle \<Rightarrow>
          (case bundle_NewBundle L pbBundle of
             Inl err \<Rightarrow> Fails err
           | Inr b \<Rightarrow> Returns b))"

text \<open>
  \<^verbatim>\<open>MarshalAttestation\<close> reads \<^verbatim>\<open>attestation.Version\<close>, then the fields of the two
  blocks, with no nil check, and hands the map to \<^verbatim>\<open>json.MarshalIndent\<close> (prefix
  empty, indent two spaces).
\<close>

definition MarshalAttestation ::
  "('f, 'st, 'tle) golib \<Rightarrow> 'st pb_Attestation option \<Rightarrow> bytes outcome" where
  "MarshalAttestation L attestation =
     (case attestation of
        None \<Rightarrow> Panics
      | Some a \<Rightarrow>
          (case VerificationMaterial a of
             None \<Rightarrow> Panics
           | Some vm \<Rightarrow>
               (case Envelope a of
                  None \<Rightarrow> Panics
                | Some env \<Rightarrow>
                    let result =
                          [''version'' \<mapsto> IUint32 (Version a),
                           ''verification_material'' \<mapsto> IMap
                             [''certificate'' \<mapsto>
                                IString (base64_EncodeToString L (Certificate vm)),
                              ''transparency_entries'' \<mapsto>
                                IStructs (TransparencyEntries vm)],
                           ''envelope'' \<mapsto> IMap
                             [''statement'' \<mapsto>
                                IString (base64_EncodeToString L (Statement env)),
                              ''signature'' \<mapsto>
                                IString (base64_EncodeToString L (Signature env))]]
                    in
                      (case json_MarshalIndent L result of
                         Inl err \<Rightarrow> Fails err
                       | Inr data \<Rightarrow> Returns data))))"

text \<open>
  The loop over the decoded \<^verbatim>\<open>transparency_entries\<close> array: an element that is a
  JSON object is converted and appended, any other element is passed over.
\<close>

fun appendEntries ::
  "('f, 'st, 'tle) golib \<Rightarrow> ('f, 'st) iface list \<Rightarrow> 'st pb_VerificationMaterial
     \<Rightarrow> error + 'st pb_VerificationMaterial" where
  "appendEntries L [] vm = Inr vm"
| "appendEntries L (entry # rest) vm =
     (case entry of
        IMap entryMap \<Rightarrow>
          (case structpb_NewStruct L entryMap of
             Inl err \<Rightarrow>
               Inl (ErrorfW ''failed to create transparency entry struct: %w'' err)
           | Inr s \<Rightarrow>
               appendEntries L rest
                 (vm\<lparr>TransparencyEntries := TransparencyEntries vm @ [s]\<rparr>))
      | _ \<Rightarrow> appendEntries L rest vm)"

text \<open>
  For statements about that loop: whether an element is a JSON object, and the objects
  of an array in order.
\<close>

definition isObject :: "('f, 'st) iface \<Rightarrow> bool" where
  "isObject e = (case e of IMap m \<Rightarrow> True | _ \<Rightarrow> False)"

definition objectsOf ::
  "('f, 'st) iface list \<Rightarrow> (string \<Rightarrow> ('f, 'st) iface option) list" where
  "objectsOf entries =
     List.map_filter (\<lambda>e. case e of IMap m \<Rightarrow> Some m | _ \<Rightarrow> None) entries"

text \<open>The block of \<^verbatim>\<open>UnmarshalAttestation\<close> under "Parse verification material".\<close>

definition parseVerificationMaterial ::
  "('f, 'st, 'tle) golib \<Rightarrow> (string \<Rightarrow> ('f, 'st) iface option)
     \<Rightarrow> 'st pb_VerificationMaterial \<Rightarrow> error + 'st pb_VerificationMaterial" where
  "parseVerificationMaterial L raw vm0 =
     (case raw ''verification_material'' of
        Some (IMap vm) \<Rightarrow>
          (case (case vm ''certificate'' of
                   Some (IString certStr) \<Rightarrow>
                     (case base64_DecodeString L certStr of
                        Inl err \<Rightarrow> Inl (ErrorfW ''failed to decode certificate: %w'' err)
                      | Inr cert \<Rightarrow> Inr (vm0\<lparr>Certificate := cert\<rparr>))
                 | _ \<Rightarrow> Inr vm0) of
             Inl err \<Rightarrow> Inl err
           | Inr vm1 \<Rightarrow>
               (case vm ''transparency_entries'' of
                  Some (ISlice entries) \<Rightarrow> appendEntries L entries vm1
                | _ \<Rightarrow> Inr vm1))
      | _ \<Rightarrow> Inr vm0)"

text \<open>The block under "Parse envelope".\<close>

definition parseEnvelope ::
  "('f, 'st, 'tle) golib \<Rightarrow> (string \<Rightarrow> ('f, 'st) iface option)
     \<Rightarrow> pb_Envelope \<Rightarrow> error + pb_Envelope" where
  "parseEnvelope L raw env0 =
     (case raw ''envelope'' of
        Some (IMap env) \<Rightarrow>
          (case (case env ''statement'' of
                   Some (IString stmtStr) \<Rightarrow>
                     (case base64_DecodeString L stmtStr of
                        Inl err \<Rightarrow> Inl (ErrorfW ''failed to decode statement: %w'' err)
                      | Inr stmt \<Rightarrow> Inr (env0\<lparr>Statement := stmt\<rparr>))
                 | _ \<Rightarrow> Inr env0) of
             Inl err \<Rightarrow> Inl err
           | Inr env1 \<Rightarrow>
               (case env ''signature'' of
                  Some (IString sigStr) \<Rightarrow>
                    (case base64_DecodeString L sigStr of
                       Inl err \<Rightarrow> Inl (ErrorfW ''failed to decode signature: %w'' err)
                     | Inr sig \<Rightarrow> Inr (env1\<lparr>Signature := sig\<rparr>))
                | _ \<Rightarrow> Inr env1))
      | _ \<Rightarrow> Inr env0)"

definition UnmarshalAttestation ::
  "('f, 'st, 'tle) golib \<Rightarrow> bytes \<Rightarrow> 'st pb_Attestation outcome" where
  "UnmarshalAttestation L data =
     (case json_Unmarshal L data of
        Inl err \<Rightarrow> Fails (ErrorfW ''failed to unmarshal JSON: %w'' err)
      | Inr raw \<Rightarrow>
          let version =
                (case raw ''version'' of
                   Some (IFloat64 v) \<Rightarrow> uint32_of_float64 L v
                 | _ \<Rightarrow> 0)
          in
            (case parseVerificationMaterial L raw
                    \<lparr>Certificate = [], TransparencyEntries = []\<rparr> of
               Inl err \<Rightarrow> Fails err
             | Inr vm \<Rightarrow>
                 (case parseEnvelope L raw \<lparr>Statement = [], Signature = []\<rparr> of
                    Inl err \<Rightarrow> Fails err
                  | Inr env \<Rightarrow>
                      Returns
                        \<lparr>Version = version,
                         VerificationMaterial = Some vm,
                         Envelope = Some env\<rparr>)))"

section \<open>The JSON library as a two-way codec\<close>



section \<open>A small library and example inputs\<close>

text \<open>
  The theorems of this theory hold for every library. To run the package on concrete
  inputs, this section fixes one small library: each of its functions is a finite table
  over the values the examples use and answers with an error elsewhere. In it a
  \<^verbatim>\<open>float64\<close> is a natural number, a \<^verbatim>\<open>structpb.Struct\<close> is a list of string
  fields, and a typed transparency-log entry has a log index and, optionally, an
  inclusion proof.
\<close>

record example_entry =
  logIndex :: string
  inclusionProof :: "string option"

type_synonym example_struct = "(string \<times> string) list"
type_synonym example_iface = "(nat, example_struct) iface"

definition entry7_struct :: example_struct where
  "entry7_struct = [(''logIndex'', ''7''), (''inclusionProof'', ''p'')]"

definition entry8_struct :: example_struct where
  "entry8_struct = [(''logIndex'', ''8'')]"

definition entry9_struct :: example_struct where
  "entry9_struct = [(''unknown'', ''x'')]"

definition entry7 :: example_entry where
  "entry7 = \<lparr>logIndex = ''7'', inclusionProof = Some ''p''\<rparr>"

definition entry8 :: example_entry where
  "entry8 = \<lparr>logIndex = ''8'', inclusionProof = None\<rparr>"

definition entry7_map :: "string \<Rightarrow> example_iface option" where
  "entry7_map = [''logIndex'' \<mapsto> IString ''7'', ''inclusionProof'' \<mapsto> IString ''p'']"

definition entry8_map :: "string \<Rightarrow> example_iface option" where
  "entry8_map = [''logIndex'' \<mapsto> IString ''8'']"

text \<open>
  The JSON texts of the three entries, as bytes:
  \<^verbatim>\<open>{"logIndex":"7","inclusionProof":"p"}\<close>, \<^verbatim>\<open>{"logIndex":"8"}\<close> and
  \<^verbatim>\<open>{"unknown":"x"}\<close>.
\<close>

definition entry7_json :: bytes where
  "entry7_json =
     [123, 34, 108, 111, 103, 73, 110, 100, 101, 120, 34, 58, 34, 55, 34, 44, 34, 105, 110,
      99, 108, 117, 115, 105, 111, 110, 80, 114, 111, 111, 102, 34, 58, 34, 112, 34, 125]"

definition entry8_json :: bytes where
  "entry8_json =
     [123, 34, 108, 111, 103, 73, 110, 100, 101, 120, 34, 58, 34, 56, 34, 125]"

definition entry9_json :: bytes where
  "entry9_json =
     [123, 34, 117, 110, 107, 110, 111, 119, 110, 34, 58, 34, 120, 34, 125]"

text \<open>
  The example attestation: version 1, a five-byte certificate, one transparency entry,
  and the statement and signature bytes of the package's own test. Its JSON text is
  \<^verbatim>\<open>{"envelope":{"signature":"BQY=","statement":"AwQ="},"verification_material":\<close>
  \<^verbatim>\<open>{"certificate":"MAMCAQc=","transparency_entries":[{"inclusionProof":"p",\<close>
  \<^verbatim>\<open>"logIndex":"7"}]},"version":1}\<close>; \<open>no_version_json\<close> is the same text without
  its last field.
\<close>

definition example_der :: bytes where
  "example_der = [48, 3, 2, 1, 7]"

definition example_attestation :: "example_struct pb_Attestation" where
  "example_attestation =
     \<lparr>Version = 1,
      VerificationMaterial = Some
        \<lparr>Certificate = example_der, TransparencyEntries = [entry7_struct]\<rparr>,
      Envelope = Some \<lparr>Statement = [3, 4], Signature = [5, 6]\<rparr>\<rparr>"

text \<open>The map that \<^verbatim>\<open>MarshalAttestation\<close> builds for it, and the map its text decodes to.\<close>

definition example_result :: "string \<Rightarrow> example_iface option" where
  "example_result =
     [''version'' \<mapsto> IUint32 1,
      ''verification_material'' \<mapsto> IMap
        [''certificate'' \<mapsto> IString ''MAMCAQc='',
         ''transparency_entries'' \<mapsto> IStructs [entry7_struct]],
      ''envelope'' \<mapsto> IMap
        [''statement'' \<mapsto> IString ''AwQ='',
         ''signature'' \<mapsto> IString ''BQY='']]"

definition example_raw :: "string \<Rightarrow> example_iface option" where
  "example_raw =
     [''version'' \<mapsto> IFloat64 1,
      ''verification_material'' \<mapsto> IMap
        [''certificate'' \<mapsto> IString ''MAMCAQc='',
         ''transparency_entries'' \<mapsto> ISlice [IMap entry7_map]],
      ''envelope'' \<mapsto> IMap
        [''statement'' \<mapsto> IString ''AwQ='',
         ''signature'' \<mapsto> IString ''BQY='']]"

definition example_json :: bytes where
  "example_json =
     [123, 34, 101, 110, 118, 101, 108, 111, 112, 101, 34, 58, 123, 34, 115, 105, 103, 110,
      97, 116, 117, 114, 101, 34, 58, 34, 66, 81, 89, 61, 34, 44, 34, 115, 116, 97, 116,
      101, 109, 101, 110, 116, 34, 58, 34, 65, 119, 81, 61, 34, 125, 44, 34, 118, 101, 114,
      105, 102, 105, 99, 97, 116, 105, 111, 110, 95, 109, 97, 116, 101, 114, 105, 97, 108,
      34, 58, 123, 34, 99, 101, 114, 116, 105, 102, 105, 99, 97, 116, 101, 34, 58, 34, 77,
      65, 77, 67, 65, 81, 99, 61, 34, 44, 34, 116, 114, 97, 110, 115, 112, 97, 114, 101,
      110, 99, 121, 95, 101, 110, 116, 114, 105, 101, 115, 34, 58, 91, 123, 34, 105, 110,
      99, 108, 117, 115, 105, 111, 110, 80, 114, 111, 111, 102, 34, 58, 34, 112, 34, 44,
      34, 108, 111, 103, 73, 110, 100, 101, 120, 34, 58, 34, 55, 34, 125, 93, 125, 44, 34,
      118, 101, 114, 115, 105, 111, 110, 34, 58, 49, 125]"

definition no_version_json :: bytes where
  "no_version_json =
     [123, 34, 101, 110, 118, 101, 108, 111, 112, 101, 34, 58, 123, 34, 115, 105, 103, 110,
      97, 116, 117, 114, 101, 34, 58, 34, 66, 81, 89, 61, 34, 44, 34, 115, 116, 97, 116,
      101, 109, 101, 110, 116, 34, 58, 34, 65, 119, 81, 61, 34, 125, 44, 34, 118, 101, 114,
      105, 102, 105, 99, 97, 116, 105, 111, 110, 95, 109, 97, 116, 101, 114, 105, 97, 108,
      34, 58, 123, 34, 99, 101, 114, 116, 105, 102, 105, 99, 97, 116, 101, 34, 58, 34, 77,
      65, 77, 67, 65, 81, 99, 61, 34, 44, 34, 116, 114, 97, 110, 115, 112, 97, 114, 101,
      110, 99, 121, 95, 101, 110, 116, 114, 105, 101, 115, 34, 58, 91, 123, 34, 105, 110,
      99, 108, 117, 115, 105, 111, 110, 80, 114, 111, 111, 102, 34, 58, 34, 112, 34, 44,
      34, 108, 111, 103, 73, 110, 100, 101, 120, 34, 58, 34, 55, 34, 125, 93, 125, 125]"

text \<open>
  An array of transparency entries with two elements that are not objects,
  \<^verbatim>\<open>{"verification_material":{"transparency_entries":[{"logIndex":"7",\<close>
  \<^verbatim>\<open>"inclusionProof":"p"},5,"x",{"logIndex":"8"}]}}\<close>, and the same text with only the
  objects left in the array.
\<close>

definition mixed_entries :: "example_iface list" where
  "mixed_entries = [IMap entry7_map, IFloat64 5, IString ''x'', IMap entry8_map]"

definition mixed_vm :: "string \<Rightarrow> example_iface option" where
  "mixed_vm = [''transparency_entries'' \<mapsto> ISlice mixed_entries]"

definition mixed_raw :: "string \<Rightarrow> example_iface option" where
  "mixed_raw = [''verification_material'' \<mapsto> IMap mixed_vm]"

definition mixed_json :: bytes where
  "mixed_json =
     [123, 34, 118, 101, 114, 105, 102, 105, 99, 97, 116, 105, 111, 110, 95, 109, 97, 116,
      101, 114, 105, 97, 108, 34, 58, 123, 34, 116, 114, 97, 110, 115, 112, 97, 114, 101,
      110, 99, 121, 95, 101, 110, 116, 114, 105, 101, 115, 34, 58, 91, 123, 34, 108, 111,
      103, 73, 110, 100, 101, 120, 34, 58, 34, 55, 34, 44, 34, 105, 110, 99, 108, 117, 115,
      105, 111, 110, 80, 114, 111, 111, 102, 34, 58, 34, 112, 34, 125, 44, 53, 44, 34, 120,
      34, 44, 123, 34, 108, 111, 103, 73, 110, 100, 101, 120, 34, 58, 34, 56, 34, 125, 93,
      125, 125]"

definition objects_json :: bytes where
  "objects_json =
     [123, 34, 118, 101, 114, 105, 102, 105, 99, 97, 116, 105, 111, 110, 95, 109, 97, 116,
      101, 114, 105, 97, 108, 34, 58, 123, 34, 116, 114, 97, 110, 115, 112, 97, 114, 101,
      110, 99, 121, 95, 101, 110, 116, 114, 105, 101, 115, 34, 58, 91, 123, 34, 108, 111,
      103, 73, 110, 100, 101, 120, 34, 58, 34, 55, 34, 44, 34, 105, 110, 99, 108, 117, 115,
      105, 111, 110, 80, 114, 111, 111, 102, 34, 58, 34, 112, 34, 125, 44, 123, 34, 108,
      111, 103, 73, 110, 100, 101, 120, 34, 58, 34, 56, 34, 125, 93, 125, 125]"

text \<open>
  Texts with a string field that is not base64,
  \<^verbatim>\<open>{"verification_material":{"certificate":"!"}}\<close>,
  \<^verbatim>\<open>{"envelope":{"statement":"!"}}\<close> and \<^verbatim>\<open>{"envelope":{"signature":"!"}}\<close>; the empty
  object \<^verbatim>\<open>{}\<close>; and the text \<^verbatim>\<open>not valid json\<close> of the package's test.
\<close>

definition bad_certificate_json :: bytes where
  "bad_certificate_json =
     [123, 34, 118, 101, 114, 105, 102, 105, 99, 97, 116, 105, 111, 110, 95, 109, 97, 116,
      101, 114, 105, 97, 108, 34, 58, 123, 34, 99, 101, 114, 116, 105, 102, 105, 99, 97,
      116, 101, 34, 58, 34, 33, 34, 125, 125]"

definition bad_statement_json :: bytes where
  "bad_statement_json =
     [123, 34, 101, 110, 118, 101, 108, 111, 112, 101, 34, 58, 123, 34, 115, 116, 97, 116,
      101, 109, 101, 110, 116, 34, 58, 34, 33, 34, 125, 125]"

definition bad_signature_json :: bytes where
  "bad_signature_json =
     [123, 34, 101, 110, 118, 101, 108, 111, 112, 101, 34, 58, 123, 34, 115, 105, 103, 110,
      97, 116, 117, 114, 101, 34, 58, 34, 33, 34, 125, 125]"

definition empty_json :: bytes where
  "empty_json =
     [123, 125]"

definition not_json :: bytes where
  "not_json =
     [110, 111, 116, 32, 118, 97, 108, 105, 100, 32, 106, 115, 111, 110]"

text \<open>
  The library. Its \<^verbatim>\<open>json.MarshalIndent\<close> knows the text of one map, the one that
  \<^verbatim>\<open>MarshalAttestation\<close> builds for the example attestation.
  Its \<^verbatim>\<open>bundle.NewBundle\<close> wraps a message whose transparency-log entries
  all carry an inclusion proof and rejects any other, as sigstore-go does for bundles
  of version 0.2 and later.
\<close>

definition example_lib :: "(nat, example_struct, example_entry) golib" where
  "example_lib =
     \<lparr>x509_ParseCertificate =
        (\<lambda>der. if der = example_der then Inr \<lparr>Raw = der\<rparr>
               else Inl (New ''x509: malformed certificate'')),
      bundle_NewBundle =
        (\<lambda>pbBundle.
           case Bundle_VerificationMaterial pbBundle of
             None \<Rightarrow> Inl (New ''invalid bundle: missing verification material content'')
           | Some vm \<Rightarrow>
               if list_all (\<lambda>t. inclusionProof t \<noteq> None) (TlogEntries vm)
               then Inr \<lparr>Bundle = Some pbBundle\<rparr>
               else Inl (New
                 ''inclusion proof missing in bundle (required for bundle v0.2)'')),
      protojson_Marshal_Struct =
        (\<lambda>s. if s = entry7_struct then Inr entry7_json
             else if s = entry8_struct then Inr entry8_json
             else if s = entry9_struct then Inr entry9_json
             else Inl (New ''proto: invalid UTF-8'')),
      protojson_Marshal_Entry =
        (\<lambda>t. if t = entry7 then Inr entry7_json
             else if t = entry8 then Inr entry8_json
             else Inl (New ''proto: invalid UTF-8'')),
      protojson_Unmarshal_Entry =
        (\<lambda>data. if data = entry7_json then Inr entry7
                else if data = entry8_json then Inr entry8
                else Inl (New ''proto: unknown field'')),
      protojson_Marshal_Bundle = (\<lambda>pbBundle. Inl (New ''proto: invalid UTF-8'')),
      protojson_Unmarshal_Bundle = (\<lambda>data. Inl (New ''proto: syntax error'')),
      structpb_NewStruct =
        (\<lambda>m. case m ''logIndex'' of
               Some (IString i) \<Rightarrow>
                 (case m ''inclusionProof'' of
                    Some (IString p) \<Rightarrow> Inr [(''logIndex'', i), (''inclusionProof'', p)]
                  | _ \<Rightarrow> Inr [(''logIndex'', i)])
             | _ \<Rightarrow> Inl (New ''proto: invalid type'')),
      json_Unmarshal =
        (\<lambda>data. if data = entry7_json then Inr entry7_map
                else if data = entry8_json then Inr entry8_map
                else if data = example_json then Inr example_raw
                else if data = no_version_json then Inr (example_raw(''version'' := None))
                else if data = mixed_json then Inr mixed_raw
                else if data = objects_json
                  then Inr (mixed_raw(''verification_material'' \<mapsto> IMap
                         (mixed_vm(''transparency_entries'' \<mapsto>
                            ISlice (filter isObject mixed_entries)))))
                else if data = bad_certificate_json
                  then Inr [''verification_material'' \<mapsto>
                              IMap [''certificate'' \<mapsto> IString ''!'']]
                else if data = bad_statement_json
                  then Inr [''envelope'' \<mapsto> IMap [''statement'' \<mapsto> IString ''!'']]
                else if data = bad_signature_json
                  then Inr [''envelope'' \<mapsto> IMap [''signature'' \<mapsto> IString ''!'']]
                else if data = empty_json then Inr Map.empty
                else Inl (New ''invalid character'')),
      json_MarshalIndent =
        (\<lambda>m. if m = example_result then Inr example_json
             else Inl (New ''json: unsupported value'')),
      base64_EncodeToString =
        (\<lambda>bs. if bs = example_der then ''MAMCAQc=''
              else if bs = [3, 4] then ''AwQ=''
              else if bs = [5, 6] then ''BQY=''
              else []),
      base64_DecodeString =
        (\<lambda>s. if s = ''MAMCAQc='' then Inr example_der
             else if s = ''AwQ='' then Inr [3, 4]
             else if s = ''BQY='' then Inr [5, 6]
             else if s = [] then Inr []
             else Inl (New ''illegal base64 data at input byte 0'')),
      uint32_of_float64 = of_nat\<rparr>"

text \<open>
  The bundle message that \<^verbatim>\<open>ToBundle\<close> assembles from the example attestation, and
  the wrapper the library makes of it.
\<close>

definition example_message :: "example_entry protobundle_Bundle" where
  "example_message =
     \<lparr>MediaType = ''application/vnd.dev.sigstore.bundle.v0.3+json'',
      Bundle_VerificationMaterial = Some
        \<lparr>VM_Content = Some
           (VerificationMaterial_Certificate (Some \<lparr>RawBytes = example_der\<rparr>)),
         TlogEntries = [entry7]\<rparr>,
      Bundle_Content = Some (Bundle_DsseEnvelope (Some
        \<lparr>Payload = [3, 4],
         PayloadType = ''application/vnd.in-toto+json'',
         Signatures = [Some \<lparr>Sig = [5, 6], Keyid = []\<rparr>]\<rparr>))\<rparr>"

definition example_bundle :: "example_entry bundle_Bundle" where
  "example_bundle = \<lparr>Bundle = Some example_message\<rparr>"

text \<open>
  Two further attestations: one with a second transparency entry, and one whose only
  entry converts to a typed entry without an inclusion proof.
\<close>

definition two_entries_attestation :: "example_struct pb_Attestation" where
  "two_entries_attestation =
     example_attestation\<lparr>VerificationMaterial := Some
       \<lparr>Certificate = example_der,
        TransparencyEntries = [entry7_struct, entry8_struct]\<rparr>\<rparr>"

definition unproved_attestation :: "example_struct pb_Attestation" where
  "unproved_attestation =
     example_attestation\<lparr>VerificationMaterial := Some
       \<lparr>Certificate = example_der, TransparencyEntries = [entry8_struct]\<rparr>\<rparr>"

section \<open>The example library, evaluated\<close>

lemmas example_texts =
  entry7_json_def entry8_json_def entry9_json_def example_json_def no_version_json_def
  mixed_json_def objects_json_def bad_certificate_json_def bad_statement_json_def
  bad_signature_json_def empty_json_def not_json_def

lemma lib_ParseCertificate:
  "x509_ParseCertificate example_lib der =
     (if der = example_der then Inr \<lparr>Raw = der\<rparr>
      else Inl (New ''x509: malformed certificate''))"
  by (simp add: example_lib_def)

lemma lib_NewBundle:
  "bundle_NewBundle example_lib pbBundle =
     (case Bundle_VerificationMaterial pbBundle of
        None \<Rightarrow> Inl (New ''invalid bundle: missing verification material content'')
      | Some vm \<Rightarrow>
          if list_all (\<lambda>t. inclusionProof t \<noteq> None) (TlogEntries vm)
          then Inr \<lparr>Bundle = Some pbBundle\<rparr>
          else Inl (New ''inclusion proof missing in bundle (required for bundle v0.2)''))"
  by (simp add: example_lib_def)

lemma lib_EncodeToString:
  "base64_EncodeToString example_lib bs =
     (if bs = example_der then ''MAMCAQc=''
      else if bs = [3, 4] then ''AwQ=''
      else if bs = [5, 6] then ''BQY=''
      else [])"
  by (simp add: example_lib_def)

lemma lib_DecodeString:
  "base64_DecodeString example_lib s =
     (if s = ''MAMCAQc='' then Inr example_der
      else if s = ''AwQ='' then Inr [3, 4]
      else if s = ''BQY='' then Inr [5, 6]
      else if s = [] then Inr []
      else Inl (New ''illegal base64 data at input byte 0''))"
  by (simp add: example_lib_def)

lemma lib_MarshalIndent:
  "json_MarshalIndent example_lib m =
     (if m = example_result then Inr example_json
      else Inl (New ''json: unsupported value''))"
  by (simp add: example_lib_def)

lemma lib_uint32: "uint32_of_float64 example_lib = of_nat"
  by (simp add: example_lib_def)

lemma lib_NewStruct:
  "structpb_NewStruct example_lib m =
     (case m ''logIndex'' of
        Some (IString i) \<Rightarrow>
          (case m ''inclusionProof'' of
             Some (IString p) \<Rightarrow> Inr [(''logIndex'', i), (''inclusionProof'', p)]
           | _ \<Rightarrow> Inr [(''logIndex'', i)])
      | _ \<Rightarrow> Inl (New ''proto: invalid type''))"
  by (simp add: example_lib_def)

lemma lib_Unmarshal:
  "json_Unmarshal example_lib entry7_json = Inr entry7_map"
  "json_Unmarshal example_lib entry8_json = Inr entry8_map"
  "json_Unmarshal example_lib example_json = Inr example_raw"
  "json_Unmarshal example_lib no_version_json = Inr (example_raw(''version'' := None))"
  "json_Unmarshal example_lib mixed_json = Inr mixed_raw"
  "json_Unmarshal example_lib objects_json =
     Inr (mixed_raw(''verification_material'' \<mapsto> IMap
            (mixed_vm(''transparency_entries'' \<mapsto>
               ISlice (filter isObject mixed_entries)))))"
  "json_Unmarshal example_lib bad_certificate_json =
     Inr [''verification_material'' \<mapsto> IMap [''certificate'' \<mapsto> IString ''!'']]"
  "json_Unmarshal example_lib bad_statement_json =
     Inr [''envelope'' \<mapsto> IMap [''statement'' \<mapsto> IString ''!'']]"
  "json_Unmarshal example_lib bad_signature_json =
     Inr [''envelope'' \<mapsto> IMap [''signature'' \<mapsto> IString ''!'']]"
  "json_Unmarshal example_lib empty_json = Inr Map.empty"
  "json_Unmarshal example_lib not_json = Inl (New ''invalid character'')"
  by (simp_all add: example_lib_def example_texts)

lemma lib_adapter:
  "transparencyEntryFromStruct example_lib entry7_struct = Inr entry7"
  "transparencyEntryFromStruct example_lib entry8_struct = Inr entry8"
  "transparencyEntryFromStruct example_lib entry9_struct =
     Inl (ErrorfW ''failed to unmarshal JSON to TransparencyLogEntry: %w''
            (New ''proto: unknown field''))"
  "transparencyEntryToStruct example_lib entry7 = Inr entry7_struct"
  "transparencyEntryToStruct example_lib entry8 = Inr entry8_struct"
  by (simp_all add: transparencyEntryFromStruct_def transparencyEntryToStruct_def
        example_lib_def entry7_struct_def entry8_struct_def entry9_struct_def
        entry7_def entry8_def entry7_map_def entry8_map_def example_texts)

lemmas lib_simps =
  lib_ParseCertificate lib_NewBundle lib_EncodeToString lib_DecodeString
  lib_MarshalIndent lib_uint32 lib_NewStruct lib_Unmarshal lib_adapter

lemma example_ToBundle:
  "ToBundle example_lib (Some example_attestation) = Returns example_bundle"
  by (simp add: ToBundle_def lib_simps example_attestation_def example_bundle_def
        example_message_def entry7_def)

lemma example_FromBundle:
  "FromBundle example_lib (Some example_bundle) = Returns example_attestation"
  by (simp add: FromBundle_def lib_simps example_attestation_def example_bundle_def
        example_message_def)

lemma example_MarshalAttestation:
  "MarshalAttestation example_lib (Some example_attestation) = Returns example_json"
  by (simp add: MarshalAttestation_def lib_simps example_attestation_def
        example_result_def example_der_def)

lemma example_UnmarshalAttestation:
  "UnmarshalAttestation example_lib example_json = Returns example_attestation"
  by (simp add: UnmarshalAttestation_def lib_simps parseVerificationMaterial_def
        parseEnvelope_def example_attestation_def example_raw_def entry7_map_def
        entry7_struct_def)

section \<open>Nil inputs\<close>

text \<open>
  Claim C8. \<^verbatim>\<open>ToBundle\<close> on a nil attestation returns the error "attestation cannot be
  nil"; \<^verbatim>\<open>FromBundle\<close> on a nil bundle, and on a bundle whose inner message is nil,
  returns the error "bundle cannot be nil". Neither call panics.
\<close>

theorem nil_inputs_fail:
  "ToBundle L None = Fails (Errorf ''attestation cannot be nil'')
   \<and> FromBundle L None = Fails (Errorf ''bundle cannot be nil'')
   \<and> FromBundle L (Some (w\<lparr>Bundle := None\<rparr>)) = Fails (Errorf ''bundle cannot be nil'')"
  by (simp add: ToBundle_def FromBundle_def)

text \<open>
  The nil checks stop at the outer pointer. A nil block inside a non-nil input is
  dereferenced: these are the panics of the two converters.
\<close>

lemma ToBundle_nil_block_panics:
  "Version a = 1 \<Longrightarrow> VerificationMaterial a = None \<Longrightarrow> ToBundle L (Some a) = Panics"
  "Version a = 1 \<Longrightarrow> VerificationMaterial a = Some vm \<Longrightarrow>
     x509_ParseCertificate L (Certificate vm) = Inr cert \<Longrightarrow> Envelope a = None \<Longrightarrow>
     ToBundle L (Some a) = Panics"
  by (simp_all add: ToBundle_def)

lemma FromBundle_nil_block_panics:
  "Bundle w = Some pb \<Longrightarrow> Bundle_VerificationMaterial pb = None \<Longrightarrow>
     FromBundle L (Some w) = Panics"
  "Bundle w = Some pb \<Longrightarrow> Bundle_VerificationMaterial pb = Some vm \<Longrightarrow>
     VM_Content vm = Some (VerificationMaterial_Certificate None) \<Longrightarrow>
     FromBundle L (Some w) = Panics"
  "Bundle w = Some pb \<Longrightarrow> Bundle_VerificationMaterial pb = Some vm \<Longrightarrow>
     VM_Content vm = Some (VerificationMaterial_X509CertificateChain None) \<Longrightarrow>
     FromBundle L (Some w) = Panics"
  "Bundle w = Some pb \<Longrightarrow> Bundle_VerificationMaterial pb = Some vm \<Longrightarrow>
     VM_Content vm = Some (VerificationMaterial_Certificate (Some c)) \<Longrightarrow>
     Bundle_Content pb = Some (Bundle_DsseEnvelope None) \<Longrightarrow>
     FromBundle L (Some w) = Panics"
  by (simp_all add: FromBundle_def)

text \<open>
  Claim C10. \<^verbatim>\<open>MarshalAttestation\<close> has no nil check: on a nil attestation, and on an
  attestation whose verification material or envelope is nil, it dereferences the nil
  pointer, and these are its only panics, so it runs without one exactly when all three
  are present. \<^verbatim>\<open>MarshalBundle\<close> checks first and returns the error "bundle cannot be
  nil" for a nil bundle and for a nil inner message.
\<close>

theorem MarshalAttestation_nil_panics:
  "MarshalAttestation L None = Panics
   \<and> MarshalAttestation L (Some (a\<lparr>VerificationMaterial := None\<rparr>)) = Panics
   \<and> MarshalAttestation L (Some (a\<lparr>Envelope := None\<rparr>)) = Panics
   \<and> (MarshalAttestation L x = Panics) =
       (x = None \<or>
        (\<exists>a'. x = Some a' \<and> (VerificationMaterial a' = None \<or> Envelope a' = None)))
   \<and> MarshalBundle L None = Fails (Errorf ''bundle cannot be nil'')
   \<and> MarshalBundle L (Some (w\<lparr>Bundle := None\<rparr>)) = Fails (Errorf ''bundle cannot be nil'')"
  by (auto simp: MarshalAttestation_def MarshalBundle_def Let_def
        split: option.splits sum.splits)

theorem MarshalAttestation_nil_panics_witness:
  "MarshalAttestation example_lib None = Panics
   \<and> MarshalAttestation example_lib
       (Some (example_attestation\<lparr>VerificationMaterial := None\<rparr>)) = Panics
   \<and> MarshalAttestation example_lib (Some (example_attestation\<lparr>Envelope := None\<rparr>)) = Panics
   \<and> MarshalAttestation example_lib (Some example_attestation) = Returns example_json
   \<and> MarshalBundle example_lib None = Fails (Errorf ''bundle cannot be nil'')"
  using MarshalAttestation_nil_panics [of example_lib example_attestation None example_bundle]
  by (simp add: example_MarshalAttestation)

section \<open>What FromBundle extracts and returns\<close>

lemma convertEntries_all_convert:
  "\<forall>e \<in> set es. \<exists>s. transparencyEntryToStruct L e = Inr s \<Longrightarrow>
     \<exists>ss. convertEntries L i es = Inr ss \<and> map Inr ss = map (transparencyEntryToStruct L) es"
proof (induction es arbitrary: i)
  case Nil
  show ?case by simp
next
  case (Cons e es)
  from Cons.prems obtain s where s: "transparencyEntryToStruct L e = Inr s" by auto
  from Cons.prems have "\<forall>e \<in> set es. \<exists>s. transparencyEntryToStruct L e = Inr s" by simp
  from Cons.IH [OF this, of "Suc i"] obtain ss where
    "convertEntries L (Suc i) es = Inr ss" "map Inr ss = map (transparencyEntryToStruct L) es"
    by blast
  with s show ?case by simp
qed

lemma convertEntries_Inr:
  "convertEntries L i es = Inr ss \<Longrightarrow> map Inr ss = map (transparencyEntryToStruct L) es"
  by (induction es arbitrary: i ss) (auto split: sum.splits)

lemma FromBundle_Returns:
  assumes "Bundle w = Some pb"
    and "Bundle_VerificationMaterial pb = Some vm"
    and "VM_Content vm = Some (VerificationMaterial_Certificate (Some c))
         \<or> (\<exists>chain rest. VM_Content vm =
                Some (VerificationMaterial_X509CertificateChain (Some chain))
              \<and> Certificates chain = Some c # rest)"
    and "Bundle_Content pb = Some (Bundle_DsseEnvelope (Some envelope))"
    and "Signatures envelope = [Some sig0]"
    and "\<forall>e \<in> set (TlogEntries vm). \<exists>s. transparencyEntryToStruct L e = Inr s"
  shows "\<exists>ss. FromBundle L (Some w) =
           Returns \<lparr>Version = 1,
             VerificationMaterial = Some
               \<lparr>Certificate = RawBytes c, TransparencyEntries = ss\<rparr>,
             Envelope = Some
               \<lparr>Statement = Payload envelope, Signature = Sig sig0\<rparr>\<rparr>
         \<and> map Inr ss = map (transparencyEntryToStruct L) (TlogEntries vm)"
proof -
  from assms(6) obtain ss where ss: "convertEntries L 0 (TlogEntries vm) = Inr ss"
    "map Inr ss = map (transparencyEntryToStruct L) (TlogEntries vm)"
    using convertEntries_all_convert [of "TlogEntries vm" L 0] by blast
  with assms(1-5) show ?thesis
    by (auto simp: FromBundle_def)
qed

text \<open>
  Claim C5. For a bundle whose inner message and verification material are present,
  \<^verbatim>\<open>FromBundle\<close> takes the certificate bytes from the content of the verification
  material: the raw bytes of the single certificate, or the raw bytes of the first
  element of a certificate chain. Every attestation it returns carries these bytes, and
  it does return one when the rest of the bundle is in order (a DSSE envelope with one
  signature, entries that convert). An empty chain is the error "no certificates in
  chain". Any other content (a public key, or none) is the error "unsupported
  certificate type".
\<close>

theorem FromBundle_certificate:
  assumes w: "Bundle w = Some pb"
    and vm: "Bundle_VerificationMaterial pb = Some vm"
  shows "(VM_Content vm = Some (VerificationMaterial_Certificate (Some c))
          \<or> (\<exists>chain rest. VM_Content vm =
                 Some (VerificationMaterial_X509CertificateChain (Some chain))
               \<and> Certificates chain = Some c # rest)
          \<longrightarrow> (\<forall>a. FromBundle L (Some w) = Returns a \<longrightarrow>
                 (\<exists>vm'. VerificationMaterial a = Some vm' \<and> Certificate vm' = RawBytes c))
            \<and> (Bundle_Content pb = Some (Bundle_DsseEnvelope (Some envelope))
                 \<and> Signatures envelope = [Some sig0]
                 \<and> (\<forall>e \<in> set (TlogEntries vm). \<exists>s. transparencyEntryToStruct L e = Inr s)
               \<longrightarrow> (\<exists>a vm'. FromBundle L (Some w) = Returns a
                      \<and> VerificationMaterial a = Some vm' \<and> Certificate vm' = RawBytes c)))
       \<and> ((\<exists>chain. VM_Content vm = Some (VerificationMaterial_X509CertificateChain (Some chain))
               \<and> Certificates chain = [])
          \<longrightarrow> FromBundle L (Some w) = Fails (Errorf ''no certificates in chain''))
       \<and> (VM_Content vm = None \<or> (\<exists>k. VM_Content vm = Some (VerificationMaterial_PublicKey k))
          \<longrightarrow> FromBundle L (Some w) = Fails (Errorf ''unsupported certificate type''))"
proof (intro conjI impI)
  assume c: "VM_Content vm = Some (VerificationMaterial_Certificate (Some c))
          \<or> (\<exists>chain rest. VM_Content vm =
                 Some (VerificationMaterial_X509CertificateChain (Some chain))
               \<and> Certificates chain = Some c # rest)"
  with w vm show "\<forall>a. FromBundle L (Some w) = Returns a \<longrightarrow>
                 (\<exists>vm'. VerificationMaterial a = Some vm' \<and> Certificate vm' = RawBytes c)"
    unfolding FromBundle_def
    by (auto split: option.splits bundle_content.splits if_splits sum.splits list.splits)
  assume "Bundle_Content pb = Some (Bundle_DsseEnvelope (Some envelope))
                 \<and> Signatures envelope = [Some sig0]
                 \<and> (\<forall>e \<in> set (TlogEntries vm). \<exists>s. transparencyEntryToStruct L e = Inr s)"
  with FromBundle_Returns [OF w vm c, of envelope sig0 L]
  show "\<exists>a vm'. FromBundle L (Some w) = Returns a
                      \<and> VerificationMaterial a = Some vm' \<and> Certificate vm' = RawBytes c"
    by auto
next
  assume "\<exists>chain. VM_Content vm = Some (VerificationMaterial_X509CertificateChain (Some chain))
               \<and> Certificates chain = []"
  with w vm show "FromBundle L (Some w) = Fails (Errorf ''no certificates in chain'')"
    by (auto simp: FromBundle_def)
next
  assume "VM_Content vm = None \<or> (\<exists>k. VM_Content vm = Some (VerificationMaterial_PublicKey k))"
  with w vm show "FromBundle L (Some w) = Fails (Errorf ''unsupported certificate type'')"
    by (auto simp: FromBundle_def)
qed

theorem FromBundle_certificate_witness:
  "FromBundle example_lib (Some example_bundle) = Returns example_attestation
   \<and> FromBundle example_lib
        (Some (example_bundle\<lparr>Bundle := Some (example_message\<lparr>Bundle_VerificationMaterial :=
           Some \<lparr>VM_Content = Some (VerificationMaterial_X509CertificateChain (Some
                   \<lparr>Certificates = [Some \<lparr>RawBytes = example_der\<rparr>,
                                    Some \<lparr>RawBytes = [9]\<rparr>]\<rparr>)),
                 TlogEntries = [entry7]\<rparr>\<rparr>)\<rparr>)) = Returns example_attestation
   \<and> VerificationMaterial example_attestation =
       Some \<lparr>Certificate = example_der, TransparencyEntries = [entry7_struct]\<rparr>
   \<and> FromBundle example_lib
        (Some (example_bundle\<lparr>Bundle := Some (example_message\<lparr>Bundle_VerificationMaterial :=
           Some \<lparr>VM_Content = Some (VerificationMaterial_X509CertificateChain (Some
                   \<lparr>Certificates = []\<rparr>)),
                 TlogEntries = [entry7]\<rparr>\<rparr>)\<rparr>)) =
       Fails (Errorf ''no certificates in chain'')
   \<and> FromBundle example_lib
        (Some (example_bundle\<lparr>Bundle := Some (example_message\<lparr>Bundle_VerificationMaterial :=
           Some \<lparr>VM_Content = Some (VerificationMaterial_PublicKey ''hint''),
                 TlogEntries = [entry7]\<rparr>\<rparr>)\<rparr>)) =
       Fails (Errorf ''unsupported certificate type'')
   \<and> FromBundle example_lib
        (Some (example_bundle\<lparr>Bundle := Some (example_message\<lparr>Bundle_VerificationMaterial :=
           Some \<lparr>VM_Content = None, TlogEntries = [entry7]\<rparr>\<rparr>)\<rparr>)) =
       Fails (Errorf ''unsupported certificate type'')"
proof -
  let ?chain = "\<lparr>VM_Content = Some (VerificationMaterial_X509CertificateChain (Some
                   \<lparr>Certificates = [Some \<lparr>RawBytes = example_der\<rparr>,
                                    Some \<lparr>RawBytes = [9]\<rparr>]\<rparr>)),
                 TlogEntries = [entry7]\<rparr>"
  let ?empty = "\<lparr>VM_Content = Some (VerificationMaterial_X509CertificateChain (Some
                   \<lparr>Certificates = []\<rparr>)),
                 TlogEntries = [entry7]\<rparr>"
  let ?key = "\<lparr>VM_Content = Some (VerificationMaterial_PublicKey ''hint''),
                 TlogEntries = [entry7]\<rparr>"
  let ?unset = "\<lparr>VM_Content = None, TlogEntries = [entry7]\<rparr>"
  have w: "Bundle (example_bundle\<lparr>Bundle := Some pb\<rparr>) = Some pb" for pb
    by (simp add: example_bundle_def)
  have vm: "Bundle_VerificationMaterial
              (example_message\<lparr>Bundle_VerificationMaterial := Some v\<rparr>) = Some v" for v
    by simp
  have chain: "FromBundle example_lib
        (Some (example_bundle\<lparr>Bundle := Some (example_message\<lparr>Bundle_VerificationMaterial :=
           Some ?chain\<rparr>)\<rparr>)) = Returns example_attestation"
    by (simp add: FromBundle_def lib_adapter example_attestation_def example_bundle_def
          example_message_def)
  from FromBundle_certificate [OF w vm, of ?chain "\<lparr>RawBytes = example_der\<rparr>" example_lib]
    chain
  have 1: "\<exists>vm'. VerificationMaterial example_attestation = Some vm'
             \<and> Certificate vm' = example_der"
    by simp
  from FromBundle_certificate [OF w vm, of ?empty "\<lparr>RawBytes = example_der\<rparr>" example_lib]
  have 2: "FromBundle example_lib
        (Some (example_bundle\<lparr>Bundle := Some (example_message\<lparr>Bundle_VerificationMaterial :=
           Some ?empty\<rparr>)\<rparr>)) = Fails (Errorf ''no certificates in chain'')"
    by simp
  from FromBundle_certificate [OF w vm, of ?key "\<lparr>RawBytes = example_der\<rparr>" example_lib]
  have 3: "FromBundle example_lib
        (Some (example_bundle\<lparr>Bundle := Some (example_message\<lparr>Bundle_VerificationMaterial :=
           Some ?key\<rparr>)\<rparr>)) = Fails (Errorf ''unsupported certificate type'')"
    by simp
  from FromBundle_certificate [OF w vm, of ?unset "\<lparr>RawBytes = example_der\<rparr>" example_lib]
  have 4: "FromBundle example_lib
        (Some (example_bundle\<lparr>Bundle := Some (example_message\<lparr>Bundle_VerificationMaterial :=
           Some ?unset\<rparr>)\<rparr>)) = Fails (Errorf ''unsupported certificate type'')"
    by simp
  from chain 1 2 3 4 show ?thesis
    by (simp add: example_FromBundle) (simp add: example_attestation_def)
qed

text \<open>
  Claim C3. Take a bundle whose inner message is present and whose certificate
  extraction yields the bytes of \<open>c\<close>. If its content is a DSSE envelope with exactly
  one signature and every transparency-log entry converts to a generic structured
  value, \<^verbatim>\<open>FromBundle\<close> returns the attestation with version 1, the bytes of \<open>c\<close>, the
  converted entries in the order of the bundle (as many as the bundle has), the DSSE
  payload as statement and the one signature. If the content is not a DSSE envelope,
  or the envelope's signature count is not 1, it returns an error.
\<close>

theorem FromBundle_dsse:
  assumes w: "Bundle w = Some pb"
    and vm: "Bundle_VerificationMaterial pb = Some vm"
    and cert: "VM_Content vm = Some (VerificationMaterial_Certificate (Some c))
               \<or> (\<exists>chain rest. VM_Content vm =
                      Some (VerificationMaterial_X509CertificateChain (Some chain))
                    \<and> Certificates chain = Some c # rest)"
  shows "(Bundle_Content pb = Some (Bundle_DsseEnvelope (Some envelope))
          \<and> Signatures envelope = [Some sig0]
          \<and> (\<forall>e \<in> set (TlogEntries vm). \<exists>s. transparencyEntryToStruct L e = Inr s)
          \<longrightarrow> (\<exists>ss. FromBundle L (Some w) =
                   Returns \<lparr>Version = 1,
                     VerificationMaterial = Some
                       \<lparr>Certificate = RawBytes c, TransparencyEntries = ss\<rparr>,
                     Envelope = Some
                       \<lparr>Statement = Payload envelope, Signature = Sig sig0\<rparr>\<rparr>
                 \<and> length ss = length (TlogEntries vm)
                 \<and> map Inr ss = map (transparencyEntryToStruct L) (TlogEntries vm)))
       \<and> ((Bundle_Content pb = None \<or> (\<exists>m. Bundle_Content pb = Some (Bundle_MessageSignature m)))
          \<longrightarrow> FromBundle L (Some w) = Fails (Errorf ''bundle does not contain a DSSE envelope''))
       \<and> (Bundle_Content pb = Some (Bundle_DsseEnvelope (Some envelope))
          \<and> length (Signatures envelope) \<noteq> 1
          \<longrightarrow> FromBundle L (Some w) =
                Fails (ErrorfD ''expected exactly one signature, got %d''
                         (length (Signatures envelope))))"
proof (intro conjI impI)
  assume a: "Bundle_Content pb = Some (Bundle_DsseEnvelope (Some envelope))
          \<and> Signatures envelope = [Some sig0]
          \<and> (\<forall>e \<in> set (TlogEntries vm). \<exists>s. transparencyEntryToStruct L e = Inr s)"
  with FromBundle_Returns [OF w vm cert, of envelope sig0 L]
  show "\<exists>ss. FromBundle L (Some w) =
                   Returns \<lparr>Version = 1,
                     VerificationMaterial = Some
                       \<lparr>Certificate = RawBytes c, TransparencyEntries = ss\<rparr>,
                     Envelope = Some
                       \<lparr>Statement = Payload envelope, Signature = Sig sig0\<rparr>\<rparr>
                 \<and> length ss = length (TlogEntries vm)
                 \<and> map Inr ss = map (transparencyEntryToStruct L) (TlogEntries vm)"
    by (blast dest: map_eq_imp_length_eq)
next
  assume "Bundle_Content pb = None \<or> (\<exists>m. Bundle_Content pb = Some (Bundle_MessageSignature m))"
  with cert w vm show "FromBundle L (Some w) = Fails (Errorf ''bundle does not contain a DSSE envelope'')"
    by (auto simp: FromBundle_def)
next
  assume "Bundle_Content pb = Some (Bundle_DsseEnvelope (Some envelope))
          \<and> length (Signatures envelope) \<noteq> 1"
  with cert w vm show "FromBundle L (Some w) =
                Fails (ErrorfD ''expected exactly one signature, got %d''
                         (length (Signatures envelope)))"
    by (auto simp: FromBundle_def)
qed

theorem FromBundle_dsse_witness:
  "Bundle example_bundle = Some example_message
   \<and> Bundle_Content example_message = Some (Bundle_DsseEnvelope (Some
        \<lparr>Payload = [3, 4], PayloadType = ''application/vnd.in-toto+json'',
         Signatures = [Some \<lparr>Sig = [5, 6], Keyid = []\<rparr>]\<rparr>))
   \<and> transparencyEntryToStruct example_lib entry7 = Inr entry7_struct
   \<and> FromBundle example_lib (Some example_bundle) =
       Returns \<lparr>Version = 1,
         VerificationMaterial = Some
           \<lparr>Certificate = example_der, TransparencyEntries = [entry7_struct]\<rparr>,
         Envelope = Some \<lparr>Statement = [3, 4], Signature = [5, 6]\<rparr>\<rparr>
   \<and> FromBundle example_lib
        (Some (example_bundle\<lparr>Bundle := Some (example_message\<lparr>Bundle_Content :=
           Some (Bundle_MessageSignature [5, 6])\<rparr>)\<rparr>)) =
       Fails (Errorf ''bundle does not contain a DSSE envelope'')
   \<and> FromBundle example_lib
        (Some (example_bundle\<lparr>Bundle := Some (example_message\<lparr>Bundle_Content :=
           Some (Bundle_DsseEnvelope (Some
             \<lparr>Payload = [3, 4], PayloadType = ''application/vnd.in-toto+json'',
              Signatures = [Some \<lparr>Sig = [5, 6], Keyid = []\<rparr>,
                            Some \<lparr>Sig = [7], Keyid = []\<rparr>]\<rparr>))\<rparr>)\<rparr>)) =
       Fails (ErrorfD ''expected exactly one signature, got %d'' 2)"
proof -
  let ?vm = "\<lparr>VM_Content = Some
                (VerificationMaterial_Certificate (Some \<lparr>RawBytes = example_der\<rparr>)),
              TlogEntries = [entry7]\<rparr>"
  let ?env = "\<lparr>Payload = [3, 4], PayloadType = ''application/vnd.in-toto+json'',
               Signatures = [Some \<lparr>Sig = [5, 6], Keyid = []\<rparr>]\<rparr>"
  let ?env2 = "\<lparr>Payload = [3, 4], PayloadType = ''application/vnd.in-toto+json'',
               Signatures = [Some \<lparr>Sig = [5, 6], Keyid = []\<rparr>,
                             Some \<lparr>Sig = [7], Keyid = []\<rparr>]\<rparr>"
  let ?pb1 = "example_message\<lparr>Bundle_Content := Some (Bundle_MessageSignature [5, 6])\<rparr>"
  let ?pb2 = "example_message\<lparr>Bundle_Content := Some (Bundle_DsseEnvelope (Some ?env2))\<rparr>"
  have vm: "Bundle_VerificationMaterial example_message = Some ?vm"
    "Bundle_VerificationMaterial ?pb1 = Some ?vm"
    "Bundle_VerificationMaterial ?pb2 = Some ?vm"
    by (simp_all add: example_message_def)
  have c: "VM_Content ?vm = Some (VerificationMaterial_Certificate (Some \<lparr>RawBytes = example_der\<rparr>))
       \<or> (\<exists>chain rest. VM_Content ?vm =
              Some (VerificationMaterial_X509CertificateChain (Some chain))
            \<and> Certificates chain = Some \<lparr>RawBytes = example_der\<rparr> # rest)"
    by simp
  have w: "Bundle example_bundle = Some example_message"
    "Bundle (example_bundle\<lparr>Bundle := Some ?pb1\<rparr>) = Some ?pb1"
    "Bundle (example_bundle\<lparr>Bundle := Some ?pb2\<rparr>) = Some ?pb2"
    by (simp_all add: example_bundle_def)
  from FromBundle_dsse [OF w(1) vm(1) c, of ?env "\<lparr>Sig = [5, 6], Keyid = []\<rparr>" example_lib]
  have 1: "FromBundle example_lib (Some example_bundle) =
       Returns \<lparr>Version = 1,
         VerificationMaterial = Some
           \<lparr>Certificate = example_der, TransparencyEntries = [entry7_struct]\<rparr>,
         Envelope = Some \<lparr>Statement = [3, 4], Signature = [5, 6]\<rparr>\<rparr>"
    by (auto simp: example_message_def lib_adapter)
  from FromBundle_dsse [OF w(2) vm(2) c, of ?env "\<lparr>Sig = [5, 6], Keyid = []\<rparr>" example_lib]
  have 2: "FromBundle example_lib (Some (example_bundle\<lparr>Bundle := Some ?pb1\<rparr>)) =
       Fails (Errorf ''bundle does not contain a DSSE envelope'')"
    by simp
  from FromBundle_dsse [OF w(3) vm(3) c, of ?env2 "\<lparr>Sig = [5, 6], Keyid = []\<rparr>" example_lib]
  have 3: "FromBundle example_lib (Some (example_bundle\<lparr>Bundle := Some ?pb2\<rparr>)) =
       Fails (ErrorfD ''expected exactly one signature, got %d'' 2)"
    by simp
  from 1 2 3 w(1) show ?thesis
    by (simp add: lib_adapter) (simp add: example_message_def)
qed

section \<open>Constructed attestations\<close>

lemma UnmarshalAttestation_blocks:
  "UnmarshalAttestation L data = Returns a \<Longrightarrow>
     VerificationMaterial a \<noteq> None \<and> Envelope a \<noteq> None"
  by (auto simp: UnmarshalAttestation_def Let_def split: sum.splits)

lemma FromBundle_Returns_shape:
  "FromBundle L b = Returns a \<Longrightarrow>
     \<exists>vm env. a = \<lparr>Version = 1, VerificationMaterial = Some vm, Envelope = Some env\<rparr>"
  unfolding FromBundle_def
  by (auto split: option.splits outcome.splits bundle_content.splits if_splits
        sum.splits list.splits)

lemma UnmarshalAttestation_absent_blocks:
  "json_Unmarshal L data = Inr raw \<Longrightarrow> raw ''verification_material'' = None \<Longrightarrow>
   raw ''envelope'' = None \<Longrightarrow>
     \<exists>v. UnmarshalAttestation L data =
       Returns \<lparr>Version = v,
         VerificationMaterial = Some \<lparr>Certificate = [], TransparencyEntries = []\<rparr>,
         Envelope = Some \<lparr>Statement = [], Signature = []\<rparr>\<rparr>"
  by (simp add: UnmarshalAttestation_def parseVerificationMaterial_def parseEnvelope_def)

text \<open>
  Claim C9. Every attestation that \<^verbatim>\<open>UnmarshalAttestation\<close> or \<^verbatim>\<open>FromBundle\<close> returns
  has its verification material and its envelope present. \<^verbatim>\<open>UnmarshalAttestation\<close>
  returns both blocks, empty, also when the JSON object has neither field.
\<close>

theorem constructed_blocks_present:
  "(UnmarshalAttestation L data = Returns a \<longrightarrow>
      VerificationMaterial a \<noteq> None \<and> Envelope a \<noteq> None)
   \<and> (FromBundle L b = Returns a' \<longrightarrow>
      VerificationMaterial a' \<noteq> None \<and> Envelope a' \<noteq> None)
   \<and> (json_Unmarshal L data0 = Inr raw \<and> raw ''verification_material'' = None
        \<and> raw ''envelope'' = None \<longrightarrow>
      (\<exists>v. UnmarshalAttestation L data0 =
         Returns \<lparr>Version = v,
           VerificationMaterial = Some \<lparr>Certificate = [], TransparencyEntries = []\<rparr>,
           Envelope = Some \<lparr>Statement = [], Signature = []\<rparr>\<rparr>))"
  using UnmarshalAttestation_blocks [of L data a] FromBundle_Returns_shape [of L b a']
    UnmarshalAttestation_absent_blocks [of L data0 raw]
  by auto

theorem constructed_blocks_present_witness:
  "UnmarshalAttestation example_lib example_json = Returns example_attestation
   \<and> VerificationMaterial example_attestation \<noteq> None
   \<and> Envelope example_attestation \<noteq> None
   \<and> FromBundle example_lib (Some example_bundle) = Returns example_attestation
   \<and> json_Unmarshal example_lib empty_json = Inr Map.empty
   \<and> UnmarshalAttestation example_lib empty_json =
       Returns \<lparr>Version = 0,
         VerificationMaterial = Some \<lparr>Certificate = [], TransparencyEntries = []\<rparr>,
         Envelope = Some \<lparr>Statement = [], Signature = []\<rparr>\<rparr>"
proof -
  from constructed_blocks_present
    [of example_lib example_json example_attestation "Some example_bundle"
      example_attestation empty_json Map.empty]
  have "VerificationMaterial example_attestation \<noteq> None
        \<and> Envelope example_attestation \<noteq> None"
    and "\<exists>v. UnmarshalAttestation example_lib empty_json =
         Returns \<lparr>Version = v,
           VerificationMaterial = Some \<lparr>Certificate = [], TransparencyEntries = []\<rparr>,
           Envelope = Some \<lparr>Statement = [], Signature = []\<rparr>\<rparr>"
    by (simp_all add: example_UnmarshalAttestation example_FromBundle lib_Unmarshal)
  moreover have "UnmarshalAttestation example_lib empty_json =
       Returns \<lparr>Version = 0,
         VerificationMaterial = Some \<lparr>Certificate = [], TransparencyEntries = []\<rparr>,
         Envelope = Some \<lparr>Statement = [], Signature = []\<rparr>\<rparr>"
    by (simp add: UnmarshalAttestation_def lib_Unmarshal parseVerificationMaterial_def
          parseEnvelope_def)
  ultimately show ?thesis
    by (simp add: example_UnmarshalAttestation example_FromBundle lib_Unmarshal)
qed

section \<open>Errors and tolerance of UnmarshalAttestation\<close>

lemma appendEntries_filter:
  "appendEntries L (filter isObject entries) vm = appendEntries L entries vm"
  by (induction L entries vm rule: appendEntries.induct)
     (auto simp: isObject_def split: iface.splits sum.splits)

lemma objectsOf_Cons:
  "objectsOf (e # es) = (case e of IMap m \<Rightarrow> m # objectsOf es | _ \<Rightarrow> objectsOf es)"
  by (simp add: objectsOf_def map_filter_simps split: iface.splits)

lemma appendEntries_Inr:
  "appendEntries L entries vm = Inr vm' \<Longrightarrow>
     Certificate vm' = Certificate vm \<and>
     (\<exists>ss. TransparencyEntries vm' = TransparencyEntries vm @ ss \<and>
           map Inr ss = map (structpb_NewStruct L) (objectsOf entries))"
proof (induction entries arbitrary: vm vm')
  case Nil
  then show ?case by (simp add: objectsOf_def map_filter_simps)
next
  case (Cons entry rest)
  show ?case
  proof (cases entry)
    case (IMap m)
    with Cons.prems obtain s where s: "structpb_NewStruct L m = Inr s"
      and rest: "appendEntries L rest (vm\<lparr>TransparencyEntries := TransparencyEntries vm @ [s]\<rparr>)
                  = Inr vm'"
      by (auto split: sum.splits)
    from Cons.IH [OF rest] obtain ss where
      "Certificate vm' = Certificate vm"
      "TransparencyEntries vm' = (TransparencyEntries vm @ [s]) @ ss"
      "map Inr ss = map (structpb_NewStruct L) (objectsOf rest)"
      by auto
    with IMap s show ?thesis
      by (intro conjI exI [of _ "s # ss"]) (simp_all add: objectsOf_Cons)
  qed (use Cons in \<open>auto simp: objectsOf_Cons\<close>)
qed

lemma UnmarshalAttestation_bad_json:
  "json_Unmarshal L data = Inl err \<Longrightarrow>
     UnmarshalAttestation L data = Fails (ErrorfW ''failed to unmarshal JSON: %w'' err)"
  by (simp add: UnmarshalAttestation_def)

lemma UnmarshalAttestation_bad_certificate:
  "\<lbrakk>json_Unmarshal L data = Inr raw; raw ''verification_material'' = Some (IMap vm);
    vm ''certificate'' = Some (IString certStr); base64_DecodeString L certStr = Inl err\<rbrakk>
   \<Longrightarrow> UnmarshalAttestation L data = Fails (ErrorfW ''failed to decode certificate: %w'' err)"
  by (simp add: UnmarshalAttestation_def parseVerificationMaterial_def)

lemma parseVerificationMaterial_version:
  "parseVerificationMaterial L (raw(''version'' := x)) vm0 = parseVerificationMaterial L raw vm0"
  by (simp add: parseVerificationMaterial_def)

lemma parseEnvelope_version:
  "parseEnvelope L (raw(''version'' := x)) env0 = parseEnvelope L raw env0"
  by (simp add: parseEnvelope_def)

lemma UnmarshalAttestation_version_absent:
  "\<lbrakk>json_Unmarshal L data = Inr raw; json_Unmarshal L data' = Inr (raw(''version'' := None))\<rbrakk>
   \<Longrightarrow> UnmarshalAttestation L data' =
        (case UnmarshalAttestation L data of
           Returns a \<Rightarrow> Returns (a\<lparr>Version := 0\<rparr>)
         | Fails e \<Rightarrow> Fails e
         | Panics \<Rightarrow> Panics)"
  by (simp add: UnmarshalAttestation_def parseVerificationMaterial_version parseEnvelope_version
        split: sum.splits)

lemma UnmarshalAttestation_version_default:
  "\<lbrakk>json_Unmarshal L data = Inr raw; raw ''version'' = None;
    UnmarshalAttestation L data = Returns a\<rbrakk> \<Longrightarrow> Version a = 0"
  by (auto simp: UnmarshalAttestation_def split: sum.splits)

lemma UnmarshalAttestation_skips:
  "\<lbrakk>json_Unmarshal L data = Inr raw; raw ''verification_material'' = Some (IMap vm);
    vm ''transparency_entries'' = Some (ISlice entries);
    json_Unmarshal L data' =
      Inr (raw(''verification_material'' \<mapsto>
             IMap (vm(''transparency_entries'' \<mapsto> ISlice (filter isObject entries)))))\<rbrakk>
   \<Longrightarrow> UnmarshalAttestation L data' = UnmarshalAttestation L data"
proof -
  assume raw: "json_Unmarshal L data = Inr raw"
    and vm: "raw ''verification_material'' = Some (IMap vm)"
    and es: "vm ''transparency_entries'' = Some (ISlice entries)"
    and raw': "json_Unmarshal L data' =
      Inr (raw(''verification_material'' \<mapsto>
             IMap (vm(''transparency_entries'' \<mapsto> ISlice (filter isObject entries)))))"
  let ?raw' = "raw(''verification_material'' \<mapsto>
             IMap (vm(''transparency_entries'' \<mapsto> ISlice (filter isObject entries))))"
  have 1: "parseVerificationMaterial L ?raw' vm0 = parseVerificationMaterial L raw vm0" for vm0
    using vm es
    by (simp add: parseVerificationMaterial_def appendEntries_filter
          split: option.splits iface.splits sum.splits)
  have 2: "parseEnvelope L ?raw' env0 = parseEnvelope L raw env0" for env0
    by (simp add: parseEnvelope_def)
  have 3: "?raw' ''version'' = raw ''version''" by simp
  show ?thesis
    unfolding UnmarshalAttestation_def raw raw' sum.case 1 2 3 ..
qed

lemma parseVerificationMaterial_entries:
  assumes "raw ''verification_material'' = Some (IMap vm)"
    and "vm ''transparency_entries'' = Some (ISlice entries)"
    and "parseVerificationMaterial L raw \<lparr>Certificate = [], TransparencyEntries = []\<rparr> = Inr vm'"
  shows "map Inr (TransparencyEntries vm') = map (structpb_NewStruct L) (objectsOf entries)"
proof -
  from assms have "\<exists>vm1. TransparencyEntries vm1 = [] \<and> appendEntries L entries vm1 = Inr vm'"
    by (force simp: parseVerificationMaterial_def split: sum.splits option.splits iface.splits)
  then obtain vm1 where
    vm1: "TransparencyEntries vm1 = []" and app: "appendEntries L entries vm1 = Inr vm'"
    by blast
  from appendEntries_Inr [OF app] vm1 show ?thesis by auto
qed

lemma UnmarshalAttestation_entries:
  "\<lbrakk>json_Unmarshal L data = Inr raw; raw ''verification_material'' = Some (IMap vm);
    vm ''transparency_entries'' = Some (ISlice entries);
    UnmarshalAttestation L data = Returns a\<rbrakk>
   \<Longrightarrow> \<exists>vm'. VerificationMaterial a = Some vm' \<and>
        map Inr (TransparencyEntries vm') = map (structpb_NewStruct L) (objectsOf entries)"
  by (auto simp: UnmarshalAttestation_def split: sum.splits
        dest: parseVerificationMaterial_entries)

lemma UnmarshalAttestation_bad_envelope:
  "\<lbrakk>json_Unmarshal L data = Inr raw; raw ''envelope'' = Some (IMap env);
    env ''statement'' = Some (IString str) \<or> env ''signature'' = Some (IString str);
    base64_DecodeString L str = Inl err\<rbrakk>
   \<Longrightarrow> \<exists>e. UnmarshalAttestation L data = Fails e"
  by (auto simp: UnmarshalAttestation_def parseEnvelope_def
        split: sum.splits option.splits iface.splits)

text \<open>
  Claim C6. \<^verbatim>\<open>UnmarshalAttestation\<close> returns an error when \<^verbatim>\<open>json.Unmarshal\<close> rejects
  the input, and when the certificate, the statement or the signature is a string that
  base64 decoding rejects. A missing version is no error: removing the field from the
  decoded object changes nothing but the version of the result, which becomes 0.
  Elements of the \<^verbatim>\<open>transparency_entries\<close> array that are not objects are passed over:
  the outcome is the one for the array with only its objects left, and a returned
  attestation has one entry per object, in order.
\<close>

theorem UnmarshalAttestation_errors:
  "(json_Unmarshal L d1 = Inl err1 \<longrightarrow>
      UnmarshalAttestation L d1 = Fails (ErrorfW ''failed to unmarshal JSON: %w'' err1))
   \<and> (json_Unmarshal L d2 = Inr raw2 \<and> raw2 ''verification_material'' = Some (IMap vm2)
        \<and> vm2 ''certificate'' = Some (IString str2)
        \<and> base64_DecodeString L str2 = Inl err2 \<longrightarrow>
      UnmarshalAttestation L d2 =
        Fails (ErrorfW ''failed to decode certificate: %w'' err2))
   \<and> (json_Unmarshal L d3 = Inr raw3 \<and> raw3 ''envelope'' = Some (IMap env3)
        \<and> (env3 ''statement'' = Some (IString str3)
             \<or> env3 ''signature'' = Some (IString str3))
        \<and> base64_DecodeString L str3 = Inl err3 \<longrightarrow>
      (\<exists>e. UnmarshalAttestation L d3 = Fails e))
   \<and> (json_Unmarshal L d6 = Inr raw6 \<and> raw6 ''version'' = None
        \<and> UnmarshalAttestation L d6 = Returns a6 \<longrightarrow>
      Version a6 = 0)
   \<and> (json_Unmarshal L d4 = Inr raw4
        \<and> json_Unmarshal L d4' = Inr (raw4(''version'' := None)) \<longrightarrow>
      UnmarshalAttestation L d4' =
        (case UnmarshalAttestation L d4 of
           Returns a \<Rightarrow> Returns (a\<lparr>Version := 0\<rparr>)
         | Fails e \<Rightarrow> Fails e
         | Panics \<Rightarrow> Panics))
   \<and> (json_Unmarshal L d5 = Inr raw5 \<and> raw5 ''verification_material'' = Some (IMap vm5)
        \<and> vm5 ''transparency_entries'' = Some (ISlice entries)
        \<and> json_Unmarshal L d5' =
             Inr (raw5(''verification_material'' \<mapsto> IMap
                    (vm5(''transparency_entries'' \<mapsto> ISlice (filter isObject entries)))))
        \<longrightarrow>
      UnmarshalAttestation L d5' = UnmarshalAttestation L d5
      \<and> (\<forall>a. UnmarshalAttestation L d5 = Returns a \<longrightarrow>
            (\<exists>vm'. VerificationMaterial a = Some vm'
               \<and> map Inr (TransparencyEntries vm') =
                   map (structpb_NewStruct L) (objectsOf entries))))"
  using UnmarshalAttestation_bad_json [of L d1 err1]
    UnmarshalAttestation_bad_certificate [of L d2 raw2 vm2 str2 err2]
    UnmarshalAttestation_bad_envelope [of L d3 raw3 env3 str3 err3]
    UnmarshalAttestation_version_default [of L d6 raw6 a6]
    UnmarshalAttestation_version_absent [of L d4 raw4 d4']
    UnmarshalAttestation_skips [of L d5 raw5 vm5 entries d5']
    UnmarshalAttestation_entries [of L d5 raw5 vm5 entries]
  by blast

theorem UnmarshalAttestation_errors_witness:
  "UnmarshalAttestation example_lib not_json =
     Fails (ErrorfW ''failed to unmarshal JSON: %w'' (New ''invalid character''))
   \<and> UnmarshalAttestation example_lib bad_certificate_json =
     Fails (ErrorfW ''failed to decode certificate: %w''
              (New ''illegal base64 data at input byte 0''))
   \<and> UnmarshalAttestation example_lib bad_statement_json =
     Fails (ErrorfW ''failed to decode statement: %w''
              (New ''illegal base64 data at input byte 0''))
   \<and> UnmarshalAttestation example_lib bad_signature_json =
     Fails (ErrorfW ''failed to decode signature: %w''
              (New ''illegal base64 data at input byte 0''))
   \<and> UnmarshalAttestation example_lib example_json = Returns example_attestation
   \<and> UnmarshalAttestation example_lib no_version_json =
     Returns (example_attestation\<lparr>Version := 0\<rparr>)
   \<and> filter isObject mixed_entries = [IMap entry7_map, IMap entry8_map]
   \<and> UnmarshalAttestation example_lib mixed_json =
     Returns \<lparr>Version = 0,
       VerificationMaterial = Some
         \<lparr>Certificate = [], TransparencyEntries = [entry7_struct, entry8_struct]\<rparr>,
       Envelope = Some \<lparr>Statement = [], Signature = []\<rparr>\<rparr>
   \<and> UnmarshalAttestation example_lib objects_json =
     UnmarshalAttestation example_lib mixed_json"
proof -
  note T = UnmarshalAttestation_errors [where L = example_lib]
  have bad: "base64_DecodeString example_lib ''!'' =
      Inl (New ''illegal base64 data at input byte 0'')"
    by (simp add: lib_DecodeString)
  have 1: "UnmarshalAttestation example_lib not_json =
     Fails (ErrorfW ''failed to unmarshal JSON: %w'' (New ''invalid character''))"
    using T [where ?d1.0 = not_json and ?err1.0 = "New ''invalid character''"]
    by (simp add: lib_Unmarshal)
  have 2: "UnmarshalAttestation example_lib bad_certificate_json =
     Fails (ErrorfW ''failed to decode certificate: %w''
              (New ''illegal base64 data at input byte 0''))"
    using T [where ?d2.0 = bad_certificate_json
        and ?raw2.0 = "[''verification_material'' \<mapsto> IMap [''certificate'' \<mapsto> IString ''!'']]"
        and ?vm2.0 = "[''certificate'' \<mapsto> IString ''!'']" and ?str2.0 = "''!''"
        and ?err2.0 = "New ''illegal base64 data at input byte 0''"]
    by (simp add: lib_Unmarshal bad)
  have 3: "\<exists>e. UnmarshalAttestation example_lib bad_statement_json = Fails e"
    using T [where ?d3.0 = bad_statement_json
        and ?raw3.0 = "[''envelope'' \<mapsto> IMap [''statement'' \<mapsto> IString ''!'']]"
        and ?env3.0 = "[''statement'' \<mapsto> IString ''!'']" and ?str3.0 = "''!''"
        and ?err3.0 = "New ''illegal base64 data at input byte 0''"]
    by (simp add: lib_Unmarshal bad)
  have 4: "\<exists>e. UnmarshalAttestation example_lib bad_signature_json = Fails e"
    using T [where ?d3.0 = bad_signature_json
        and ?raw3.0 = "[''envelope'' \<mapsto> IMap [''signature'' \<mapsto> IString ''!'']]"
        and ?env3.0 = "[''signature'' \<mapsto> IString ''!'']" and ?str3.0 = "''!''"
        and ?err3.0 = "New ''illegal base64 data at input byte 0''"]
    by (simp add: lib_Unmarshal bad)
  have 5: "UnmarshalAttestation example_lib no_version_json =
     Returns (example_attestation\<lparr>Version := 0\<rparr>)"
    using T [where ?d4.0 = example_json and ?raw4.0 = example_raw
        and ?d4' = no_version_json]
    by (simp add: lib_Unmarshal example_UnmarshalAttestation)
  have 6: "UnmarshalAttestation example_lib objects_json =
     UnmarshalAttestation example_lib mixed_json"
    using T [where ?d5.0 = mixed_json and ?raw5.0 = mixed_raw and ?vm5.0 = mixed_vm
        and entries = mixed_entries and ?d5' = objects_json]
    by (simp add: lib_Unmarshal mixed_raw_def mixed_vm_def)
  have 7: "UnmarshalAttestation example_lib bad_statement_json =
     Fails (ErrorfW ''failed to decode statement: %w''
              (New ''illegal base64 data at input byte 0''))"
    "UnmarshalAttestation example_lib bad_signature_json =
     Fails (ErrorfW ''failed to decode signature: %w''
              (New ''illegal base64 data at input byte 0''))"
    "UnmarshalAttestation example_lib mixed_json =
     Returns \<lparr>Version = 0,
       VerificationMaterial = Some
         \<lparr>Certificate = [], TransparencyEntries = [entry7_struct, entry8_struct]\<rparr>,
       Envelope = Some \<lparr>Statement = [], Signature = []\<rparr>\<rparr>"
    "filter isObject mixed_entries = [IMap entry7_map, IMap entry8_map]"
    by (simp_all add: UnmarshalAttestation_def parseVerificationMaterial_def
          parseEnvelope_def lib_Unmarshal lib_NewStruct bad mixed_raw_def mixed_vm_def
          mixed_entries_def isObject_def entry7_map_def entry8_map_def
          entry7_struct_def entry8_struct_def)
  from 1 2 3 4 5 6 7 show ?thesis
    by (simp add: example_UnmarshalAttestation)
qed

section \<open>The attestation JSON round trip\<close>






section \<open>What ToBundle assembles and when it fails\<close>

lemma ToBundle_hands_over:
  assumes "Version a = 1"
    and "VerificationMaterial a = Some vm"
    and "Envelope a = Some env"
    and "x509_ParseCertificate L (Certificate vm) = Inr cert"
    and "TransparencyEntries vm = s # rest"
    and "transparencyEntryFromStruct L s = Inr tlogEntry"
  shows "ToBundle L (Some a) =
           (case bundle_NewBundle L (assembledBundle cert env tlogEntry) of
              Inl err \<Rightarrow> Fails err
            | Inr b \<Rightarrow> Returns b)"
  using assms by (simp add: ToBundle_def assembledBundle_def)

text \<open>
  Claim C2, amended. For a non-nil attestation with version 1, both blocks present, a
  certificate that parses and a first transparency entry that converts to a typed
  entry, \<^verbatim>\<open>ToBundle\<close> assembles the bundle message whose media type is
  \<^verbatim>\<open>application/vnd.dev.sigstore.bundle.v0.3+json\<close>, whose verification material is the
  single certificate with the parsed certificate's raw bytes and the one converted
  entry (later entries are dropped), and whose content is the DSSE envelope with the
  statement as payload, payload type \<^verbatim>\<open>application/vnd.in-toto+json\<close> and the one
  signature. It hands this message to \<^verbatim>\<open>bundle.NewBundle\<close> and returns its answer: the
  wrapped bundle when the wrapper accepts the message, the wrapper's error otherwise.
  The second theorem is the success on the example attestation. The third has two
  attestations that meet every condition of the claim: for one \<^verbatim>\<open>ToBundle\<close> returns
  the wrapper's error, for the other, whose envelope is nil, it panics.
\<close>

theorem ToBundle_success:
  assumes "Version a = 1"
    and "VerificationMaterial a = Some vm"
    and "Envelope a = Some env"
    and "x509_ParseCertificate L (Certificate vm) = Inr cert"
    and "TransparencyEntries vm = s # rest"
    and "transparencyEntryFromStruct L s = Inr tlogEntry"
  shows "\<exists>pbBundle.
           MediaType pbBundle = ''application/vnd.dev.sigstore.bundle.v0.3+json''
         \<and> Bundle_VerificationMaterial pbBundle = Some
             \<lparr>VM_Content = Some
                (VerificationMaterial_Certificate (Some \<lparr>RawBytes = Raw cert\<rparr>)),
              TlogEntries = [tlogEntry]\<rparr>
         \<and> Bundle_Content pbBundle = Some (Bundle_DsseEnvelope (Some
             \<lparr>Payload = Statement env,
              PayloadType = ''application/vnd.in-toto+json'',
              Signatures = [Some \<lparr>Sig = Signature env, Keyid = []\<rparr>]\<rparr>))
         \<and> ToBundle L (Some a) =
             (case bundle_NewBundle L pbBundle of
                Inl err \<Rightarrow> Fails err
              | Inr b \<Rightarrow> Returns b)"
  using ToBundle_hands_over [OF assms]
  by (intro exI [of _ "assembledBundle cert env tlogEntry"]) (simp add: assembledBundle_def)

theorem ToBundle_success_witness:
  "Version example_attestation = 1
   \<and> VerificationMaterial example_attestation =
       Some \<lparr>Certificate = example_der, TransparencyEntries = [entry7_struct]\<rparr>
   \<and> Envelope example_attestation = Some \<lparr>Statement = [3, 4], Signature = [5, 6]\<rparr>
   \<and> x509_ParseCertificate example_lib example_der = Inr \<lparr>Raw = example_der\<rparr>
   \<and> transparencyEntryFromStruct example_lib entry7_struct = Inr entry7
   \<and> bundle_NewBundle example_lib example_message = Inr example_bundle
   \<and> ToBundle example_lib (Some example_attestation) = Returns example_bundle"
proof -
  have h: "Version example_attestation = 1"
    "VerificationMaterial example_attestation =
       Some \<lparr>Certificate = example_der, TransparencyEntries = [entry7_struct]\<rparr>"
    "Envelope example_attestation = Some \<lparr>Statement = [3, 4], Signature = [5, 6]\<rparr>"
    by (simp_all add: example_attestation_def)
  have p: "x509_ParseCertificate example_lib
      (Certificate \<lparr>Certificate = example_der, TransparencyEntries = [entry7_struct]\<rparr>) =
        Inr \<lparr>Raw = example_der\<rparr>"
    by (simp add: lib_ParseCertificate)
  have e: "TransparencyEntries \<lparr>Certificate = example_der,
      TransparencyEntries = [entry7_struct]\<rparr> = entry7_struct # []"
    by simp
  have n: "bundle_NewBundle example_lib example_message = Inr example_bundle"
    by (simp add: lib_NewBundle example_message_def example_bundle_def entry7_def)
  from ToBundle_success [OF h p e lib_adapter(1)] obtain pbBundle where
    "MediaType pbBundle = MediaType example_message"
    "Bundle_VerificationMaterial pbBundle = Bundle_VerificationMaterial example_message"
    "Bundle_Content pbBundle = Bundle_Content example_message"
    and r: "ToBundle example_lib (Some example_attestation) =
             (case bundle_NewBundle example_lib pbBundle of
                Inl err \<Rightarrow> Fails err
              | Inr b \<Rightarrow> Returns b)"
    by (auto simp: example_message_def)
  then have "pbBundle = example_message" by simp
  with r n have "ToBundle example_lib (Some example_attestation) = Returns example_bundle"
    by simp
  with h p n show ?thesis by (simp add: lib_adapter)
qed

theorem ToBundle_success_counterexample:
  "Version unproved_attestation = 1
   \<and> VerificationMaterial unproved_attestation =
       Some \<lparr>Certificate = example_der, TransparencyEntries = [entry8_struct]\<rparr>
   \<and> Envelope unproved_attestation = Some \<lparr>Statement = [3, 4], Signature = [5, 6]\<rparr>
   \<and> x509_ParseCertificate example_lib example_der = Inr \<lparr>Raw = example_der\<rparr>
   \<and> transparencyEntryFromStruct example_lib entry8_struct = Inr entry8
   \<and> ToBundle example_lib (Some unproved_attestation) =
       Fails (New ''inclusion proof missing in bundle (required for bundle v0.2)'')
   \<and> Version (example_attestation\<lparr>Envelope := None\<rparr>) = 1
   \<and> VerificationMaterial (example_attestation\<lparr>Envelope := None\<rparr>) =
       Some \<lparr>Certificate = example_der, TransparencyEntries = [entry7_struct]\<rparr>
   \<and> transparencyEntryFromStruct example_lib entry7_struct = Inr entry7
   \<and> ToBundle example_lib (Some (example_attestation\<lparr>Envelope := None\<rparr>)) = Panics"
  by (simp add: ToBundle_def lib_simps unproved_attestation_def example_attestation_def
        entry8_def)

text \<open>
  Claim C4, amended. \<^verbatim>\<open>ToBundle\<close> checks in this order: a nil attestation (error
  "attestation cannot be nil"); a version other than 1 (error "unsupported attestation
  version" with the version, 999 for instance); a certificate that does not parse (the
  parse error, wrapped); an empty list of transparency entries (error "no transparency
  entries found"); a first entry that does not convert (the adapter's error, wrapped);
  and last the answer of \<^verbatim>\<open>bundle.NewBundle\<close> for the assembled message. For an
  attestation with both blocks present it returns an error exactly when one of these
  holds, the rejection by \<^verbatim>\<open>bundle.NewBundle\<close> included. The third theorem has an
  attestation for which it returns an error though none of the first five holds, and
  one with an empty entry list and a nil envelope, for which it panics and returns no
  error.
\<close>

theorem ToBundle_errors:
  assumes vm: "VerificationMaterial a = Some vm"
    and env: "Envelope a = Some env"
  shows "ToBundle L None = Fails (Errorf ''attestation cannot be nil'')
    \<and> (Version a \<noteq> 1 \<longrightarrow>
         ToBundle L (Some a) =
           Fails (ErrorfD ''unsupported attestation version: %d'' (unat (Version a))))
    \<and> (Version a = 999 \<longrightarrow>
         ToBundle L (Some a) = Fails (ErrorfD ''unsupported attestation version: %d'' 999))
    \<and> (Version a = 1 \<and> x509_ParseCertificate L (Certificate vm) = Inl err \<longrightarrow>
         ToBundle L (Some a) = Fails (ErrorfW ''failed to parse certificate: %w'' err))
    \<and> (Version a = 1 \<and> x509_ParseCertificate L (Certificate vm) = Inr cert
          \<and> TransparencyEntries vm = [] \<longrightarrow>
         ToBundle L (Some a) = Fails (Errorf ''no transparency entries found''))
    \<and> (Version a = 1 \<and> x509_ParseCertificate L (Certificate vm) = Inr cert
          \<and> TransparencyEntries vm = s # rest
          \<and> transparencyEntryFromStruct L s = Inl err \<longrightarrow>
         ToBundle L (Some a) =
           Fails (ErrorfW ''failed to convert transparency entry: %w'' err))
    \<and> (Version a = 1 \<and> x509_ParseCertificate L (Certificate vm) = Inr cert
          \<and> TransparencyEntries vm = s # rest
          \<and> transparencyEntryFromStruct L s = Inr tlogEntry \<longrightarrow>
         ToBundle L (Some a) =
           (case bundle_NewBundle L (assembledBundle cert env tlogEntry) of
              Inl e \<Rightarrow> Fails e
            | Inr b \<Rightarrow> Returns b))
    \<and> ((\<exists>e. ToBundle L (Some a) = Fails e) =
         (Version a \<noteq> 1
          \<or> (\<exists>e. x509_ParseCertificate L (Certificate vm) = Inl e)
          \<or> TransparencyEntries vm = []
          \<or> (\<exists>s' rest' e. TransparencyEntries vm = s' # rest'
                \<and> transparencyEntryFromStruct L s' = Inl e)
          \<or> (\<exists>cert' s' rest' t e.
                x509_ParseCertificate L (Certificate vm) = Inr cert'
                \<and> TransparencyEntries vm = s' # rest'
                \<and> transparencyEntryFromStruct L s' = Inr t
                \<and> bundle_NewBundle L (assembledBundle cert' env t) = Inl e)))"
proof -
  have iff: "(\<exists>e. ToBundle L (Some a) = Fails e) =
         (Version a \<noteq> 1
          \<or> (\<exists>e. x509_ParseCertificate L (Certificate vm) = Inl e)
          \<or> TransparencyEntries vm = []
          \<or> (\<exists>s' rest' e. TransparencyEntries vm = s' # rest'
                \<and> transparencyEntryFromStruct L s' = Inl e)
          \<or> (\<exists>cert' s' rest' t e.
                x509_ParseCertificate L (Certificate vm) = Inr cert'
                \<and> TransparencyEntries vm = s' # rest'
                \<and> transparencyEntryFromStruct L s' = Inr t
                \<and> bundle_NewBundle L (assembledBundle cert' env t) = Inl e))"
  proof (cases "Version a = 1")
    case False
    with vm env show ?thesis by (simp add: ToBundle_def)
  next
    case v: True
    show ?thesis
    proof (cases "x509_ParseCertificate L (Certificate vm)")
      case (Inl e)
      with v vm env show ?thesis by (simp add: ToBundle_def)
    next
      case c: (Inr cert')
      show ?thesis
      proof (cases "TransparencyEntries vm")
        case Nil
        with v c vm env show ?thesis by (simp add: ToBundle_def)
      next
        case es: (Cons s' rest')
        show ?thesis
        proof (cases "transparencyEntryFromStruct L s'")
          case (Inl e)
          with v c es vm env show ?thesis by (simp add: ToBundle_def)
        next
          case t: (Inr t)
          show ?thesis
            unfolding ToBundle_hands_over [OF v vm env c es t]
            using v c es t by (cases "bundle_NewBundle L (assembledBundle cert' env t)") auto
        qed
      qed
    qed
  qed
  have rest: "ToBundle L None = Fails (Errorf ''attestation cannot be nil'')
    \<and> (Version a \<noteq> 1 \<longrightarrow>
         ToBundle L (Some a) =
           Fails (ErrorfD ''unsupported attestation version: %d'' (unat (Version a))))
    \<and> (Version a = 999 \<longrightarrow>
         ToBundle L (Some a) = Fails (ErrorfD ''unsupported attestation version: %d'' 999))
    \<and> (Version a = 1 \<and> x509_ParseCertificate L (Certificate vm) = Inl err \<longrightarrow>
         ToBundle L (Some a) = Fails (ErrorfW ''failed to parse certificate: %w'' err))
    \<and> (Version a = 1 \<and> x509_ParseCertificate L (Certificate vm) = Inr cert
          \<and> TransparencyEntries vm = [] \<longrightarrow>
         ToBundle L (Some a) = Fails (Errorf ''no transparency entries found''))
    \<and> (Version a = 1 \<and> x509_ParseCertificate L (Certificate vm) = Inr cert
          \<and> TransparencyEntries vm = s # rest
          \<and> transparencyEntryFromStruct L s = Inl err \<longrightarrow>
         ToBundle L (Some a) =
           Fails (ErrorfW ''failed to convert transparency entry: %w'' err))
    \<and> (Version a = 1 \<and> x509_ParseCertificate L (Certificate vm) = Inr cert
          \<and> TransparencyEntries vm = s # rest
          \<and> transparencyEntryFromStruct L s = Inr tlogEntry \<longrightarrow>
         ToBundle L (Some a) =
           (case bundle_NewBundle L (assembledBundle cert env tlogEntry) of
              Inl e \<Rightarrow> Fails e
            | Inr b \<Rightarrow> Returns b))"
    using vm env by (simp add: ToBundle_def assembledBundle_def)
  from rest iff show ?thesis by blast
qed

theorem ToBundle_errors_witness:
  "ToBundle example_lib None = Fails (Errorf ''attestation cannot be nil'')
   \<and> ToBundle example_lib (Some (example_attestation\<lparr>Version := 999\<rparr>)) =
       Fails (ErrorfD ''unsupported attestation version: %d'' 999)
   \<and> ToBundle example_lib (Some (example_attestation\<lparr>VerificationMaterial := Some
         \<lparr>Certificate = [1, 2], TransparencyEntries = [entry7_struct]\<rparr>\<rparr>)) =
       Fails (ErrorfW ''failed to parse certificate: %w''
                (New ''x509: malformed certificate''))
   \<and> ToBundle example_lib (Some (example_attestation\<lparr>VerificationMaterial := Some
         \<lparr>Certificate = example_der, TransparencyEntries = []\<rparr>\<rparr>)) =
       Fails (Errorf ''no transparency entries found'')
   \<and> ToBundle example_lib (Some (example_attestation\<lparr>VerificationMaterial := Some
         \<lparr>Certificate = example_der, TransparencyEntries = [entry9_struct]\<rparr>\<rparr>)) =
       Fails (ErrorfW ''failed to convert transparency entry: %w''
                (ErrorfW ''failed to unmarshal JSON to TransparencyLogEntry: %w''
                   (New ''proto: unknown field'')))
   \<and> ToBundle example_lib (Some unproved_attestation) =
       Fails (New ''inclusion proof missing in bundle (required for bundle v0.2)'')
   \<and> ToBundle example_lib (Some example_attestation) = Returns example_bundle"
proof -
  let ?env = "\<lparr>Statement = [3, 4], Signature = [5, 6]\<rparr>"
  have vm: "VerificationMaterial (example_attestation\<lparr>VerificationMaterial := Some v\<rparr>) = Some v"
    for v :: "example_struct pb_VerificationMaterial"
    by simp
  have env: "Envelope (example_attestation\<lparr>VerificationMaterial := Some v\<rparr>) = Some ?env"
    for v :: "example_struct pb_VerificationMaterial"
    by (simp add: example_attestation_def)
  have ver: "Version (example_attestation\<lparr>VerificationMaterial := Some v\<rparr>) = 1"
    for v :: "example_struct pb_VerificationMaterial"
    by (simp add: example_attestation_def)
  have vm0: "VerificationMaterial (example_attestation\<lparr>Version := 999\<rparr>) =
      Some \<lparr>Certificate = example_der, TransparencyEntries = [entry7_struct]\<rparr>"
    "Envelope (example_attestation\<lparr>Version := 999\<rparr>) = Some ?env"
    by (simp_all add: example_attestation_def)
  have 1: "ToBundle example_lib (Some (example_attestation\<lparr>Version := 999\<rparr>)) =
       Fails (ErrorfD ''unsupported attestation version: %d'' 999)"
    using ToBundle_errors [OF vm0, where L = example_lib] by simp
  have 2: "ToBundle example_lib (Some (example_attestation\<lparr>VerificationMaterial := Some
         \<lparr>Certificate = [1, 2], TransparencyEntries = [entry7_struct]\<rparr>\<rparr>)) =
       Fails (ErrorfW ''failed to parse certificate: %w''
                (New ''x509: malformed certificate''))"
    using ToBundle_errors [OF vm env, where L = example_lib
        and err = "New ''x509: malformed certificate''"] ver
    by (simp add: lib_ParseCertificate example_der_def)
  have 3: "ToBundle example_lib (Some (example_attestation\<lparr>VerificationMaterial := Some
         \<lparr>Certificate = example_der, TransparencyEntries = []\<rparr>\<rparr>)) =
       Fails (Errorf ''no transparency entries found'')"
    using ToBundle_errors [OF vm env, where L = example_lib
        and cert = "\<lparr>Raw = example_der\<rparr>"] ver
    by (simp add: lib_ParseCertificate)
  have 4: "ToBundle example_lib (Some (example_attestation\<lparr>VerificationMaterial := Some
         \<lparr>Certificate = example_der, TransparencyEntries = [entry9_struct]\<rparr>\<rparr>)) =
       Fails (ErrorfW ''failed to convert transparency entry: %w''
                (ErrorfW ''failed to unmarshal JSON to TransparencyLogEntry: %w''
                   (New ''proto: unknown field'')))"
    using ToBundle_errors [OF vm env, where L = example_lib
        and cert = "\<lparr>Raw = example_der\<rparr>" and s = entry9_struct and rest = "[]"
        and err = "ErrorfW ''failed to unmarshal JSON to TransparencyLogEntry: %w''
                   (New ''proto: unknown field'')"] ver
    by (simp add: lib_ParseCertificate lib_adapter)
  have 5: "ToBundle example_lib (Some unproved_attestation) =
       Fails (New ''inclusion proof missing in bundle (required for bundle v0.2)'')"
    using ToBundle_errors [OF vm env, where L = example_lib
        and cert = "\<lparr>Raw = example_der\<rparr>" and s = entry8_struct and rest = "[]"
        and tlogEntry = entry8] ver
    by (simp add: lib_ParseCertificate lib_adapter lib_NewBundle assembledBundle_def
          unproved_attestation_def entry8_def)
  have 6: "ToBundle example_lib None = Fails (Errorf ''attestation cannot be nil'')"
    using ToBundle_errors [OF vm0, where L = example_lib] by simp
  from 1 2 3 4 5 6 show ?thesis by (simp add: example_ToBundle)
qed

theorem ToBundle_errors_counterexample:
  "ToBundle example_lib (Some unproved_attestation) =
     Fails (New ''inclusion proof missing in bundle (required for bundle v0.2)'')
   \<and> Version unproved_attestation = 1
   \<and> VerificationMaterial unproved_attestation =
       Some \<lparr>Certificate = example_der, TransparencyEntries = [entry8_struct]\<rparr>
   \<and> x509_ParseCertificate example_lib example_der = Inr \<lparr>Raw = example_der\<rparr>
   \<and> [entry8_struct] \<noteq> []
   \<and> transparencyEntryFromStruct example_lib entry8_struct = Inr entry8
   \<and> TransparencyEntries \<lparr>Certificate = example_der,
         TransparencyEntries = ([] :: example_struct list)\<rparr> = []
   \<and> ToBundle example_lib
        (Some \<lparr>Version = 1,
           VerificationMaterial = Some
             \<lparr>Certificate = example_der, TransparencyEntries = []\<rparr>,
           Envelope = None\<rparr>) = Panics"
  by (simp add: ToBundle_def lib_simps unproved_attestation_def example_attestation_def
        entry8_def)

section \<open>The round trip through a bundle\<close>

lemma example_wraps:
  "\<forall>pb. bundle_NewBundle example_lib pb = Inr example_bundle \<longrightarrow>
     Bundle example_bundle = Some pb"
  by (auto simp: lib_NewBundle example_bundle_def split: option.splits if_splits)

text \<open>
  Claim C1, amended. Let \<open>a\<close> be a valid attestation: version 1, both blocks present,
  a certificate that parses (to a certificate whose raw bytes are the bytes parsed),
  and at least one transparency entry. If \<^verbatim>\<open>ToBundle\<close> succeeds on it, returning the
  wrapper of the message it assembled, and the typed form of entry 0 converts back to
  a structured value \<open>s'\<close>, then \<^verbatim>\<open>FromBundle\<close> of that bundle succeeds and preserves
  the version, the certificate bytes, the statement bytes and the signature bytes
  exactly. The result carries one transparency entry, \<open>s'\<close>: the entries beyond index
  0 are dropped, so the count is preserved only for an attestation with one entry, and
  the result is the original attestation exactly when that attestation has one entry
  and the adapter round trip returns it unchanged. The third theorem below is a valid
  attestation with two entries whose round trip has one.
\<close>

theorem roundtrip_first_entry:
  assumes ver: "Version a = 1"
    and vm: "VerificationMaterial a = Some vm"
    and env: "Envelope a = Some env"
    and cert: "x509_ParseCertificate L (Certificate vm) = Inr cert"
    and raw: "Raw cert = Certificate vm"
    and entries: "TransparencyEntries vm = s # rest"
    and tob: "ToBundle L (Some a) = Returns b"
    and wraps: "\<forall>pb. bundle_NewBundle L pb = Inr b \<longrightarrow> Bundle b = Some pb"
    and conv: "\<forall>t. transparencyEntryFromStruct L s = Inr t \<longrightarrow>
                 transparencyEntryToStruct L t = Inr s'"
  shows "FromBundle L (Some b) =
           Returns \<lparr>Version = 1,
             VerificationMaterial = Some
               \<lparr>Certificate = Certificate vm, TransparencyEntries = [s']\<rparr>,
             Envelope = Some
               \<lparr>Statement = Statement env, Signature = Signature env\<rparr>\<rparr>
         \<and> (FromBundle L (Some b) = Returns a) = (rest = [] \<and> s' = s)"
proof -
  from tob ver vm env cert entries obtain t where
    t: "transparencyEntryFromStruct L s = Inr t"
    by (auto simp: ToBundle_def split: sum.splits)
  from tob have "bundle_NewBundle L (assembledBundle cert env t) = Inr b"
    unfolding ToBundle_hands_over [OF ver vm env cert entries t]
    by (simp split: sum.splits)
  with wraps have b: "Bundle b = Some (assembledBundle cert env t)" by blast
  from conv t have s': "transparencyEntryToStruct L t = Inr s'" by blast
  have 1: "FromBundle L (Some b) =
           Returns \<lparr>Version = 1,
             VerificationMaterial = Some
               \<lparr>Certificate = Certificate vm, TransparencyEntries = [s']\<rparr>,
             Envelope = Some
               \<lparr>Statement = Statement env, Signature = Signature env\<rparr>\<rparr>"
    using b s' raw by (simp add: FromBundle_def assembledBundle_def)
  have 2: "a = \<lparr>Version = 1, VerificationMaterial = Some vm, Envelope = Some env\<rparr>"
    using ver vm env by (cases a) simp
  have 3: "vm = \<lparr>Certificate = Certificate vm, TransparencyEntries = s # rest\<rparr>"
    using entries by (cases vm) simp
  have 4: "env = \<lparr>Statement = Statement env, Signature = Signature env\<rparr>"
    by (cases env) simp
  have "(FromBundle L (Some b) = Returns a) = (rest = [] \<and> s' = s)"
    unfolding 1 by (subst 2, subst 3, subst (2) 4) auto
  with 1 show ?thesis by blast
qed

theorem roundtrip_first_entry_witness:
  "Version example_attestation = 1
   \<and> x509_ParseCertificate example_lib example_der = Inr \<lparr>Raw = example_der\<rparr>
   \<and> ToBundle example_lib (Some example_attestation) = Returns example_bundle
   \<and> transparencyEntryFromStruct example_lib entry7_struct = Inr entry7
   \<and> transparencyEntryToStruct example_lib entry7 = Inr entry7_struct
   \<and> FromBundle example_lib (Some example_bundle) = Returns example_attestation"
proof -
  let ?vm = "\<lparr>Certificate = example_der, TransparencyEntries = [entry7_struct]\<rparr>"
  let ?env = "\<lparr>Statement = [3, 4], Signature = [5, 6]\<rparr>"
  have h: "Version example_attestation = 1"
    "VerificationMaterial example_attestation = Some ?vm"
    "Envelope example_attestation = Some ?env"
    by (simp_all add: example_attestation_def)
  have p: "x509_ParseCertificate example_lib (Certificate ?vm) = Inr \<lparr>Raw = example_der\<rparr>"
    "Raw \<lparr>Raw = example_der\<rparr> = Certificate ?vm"
    "TransparencyEntries ?vm = entry7_struct # []"
    by (simp_all add: lib_ParseCertificate)
  have c: "\<forall>t. transparencyEntryFromStruct example_lib entry7_struct = Inr t \<longrightarrow>
                 transparencyEntryToStruct example_lib t = Inr entry7_struct"
    by (simp add: lib_adapter)
  from roundtrip_first_entry [OF h p example_ToBundle example_wraps c]
  have "FromBundle example_lib (Some example_bundle) = Returns example_attestation"
    by (simp add: example_attestation_def)
  with h p show ?thesis by (simp add: example_ToBundle lib_adapter)
qed

theorem roundtrip_count_counterexample:
  "Version two_entries_attestation = 1
   \<and> VerificationMaterial two_entries_attestation =
       Some \<lparr>Certificate = example_der,
             TransparencyEntries = [entry7_struct, entry8_struct]\<rparr>
   \<and> Envelope two_entries_attestation = Some \<lparr>Statement = [3, 4], Signature = [5, 6]\<rparr>
   \<and> x509_ParseCertificate example_lib example_der = Inr \<lparr>Raw = example_der\<rparr>
   \<and> ToBundle example_lib (Some two_entries_attestation) = Returns example_bundle
   \<and> FromBundle example_lib (Some example_bundle) =
       Returns \<lparr>Version = 1,
         VerificationMaterial = Some
           \<lparr>Certificate = example_der, TransparencyEntries = [entry7_struct]\<rparr>,
         Envelope = Some \<lparr>Statement = [3, 4], Signature = [5, 6]\<rparr>\<rparr>
   \<and> length [entry7_struct, entry8_struct] = 2
   \<and> length [entry7_struct] = 1"
proof -
  have "ToBundle example_lib (Some two_entries_attestation) = Returns example_bundle"
    by (simp add: ToBundle_def lib_simps two_entries_attestation_def
          example_attestation_def example_bundle_def example_message_def entry7_def)
  moreover note example_FromBundle [unfolded example_attestation_def]
  ultimately show ?thesis
    by (simp add: two_entries_attestation_def example_attestation_def lib_ParseCertificate)
qed

end
